theory Spec2Isabelle
  imports Complex_Main "HOL-Library.Word" "HOL-Library.AList"
begin

unbundle bit_operations_syntax

section \<open>The decoded instruction (distorm) as the transform reads it\<close>

text \<open>
  The Asan transform of \<^verbatim>\<open>asan_transform.cc\<close> reads instructions decoded by the
  third-party distorm library. Its enumerations are datatypes here; the mnemonics and
  operand kinds that the transform never names are collected in one constructor each.
  \<^verbatim>\<open>I_UNDEFINED\<close> is the mnemonic number 0, the value the transform gives to the
  opcode of a fresh \<^verbatim>\<open>MemoryAccessInfo\<close>.
\<close>

datatype InstructionType =
    I_UNDEFINED
  | I_LEA
  | I_CLFLUSH
  | I_PREFETCH
  | I_PREFETCHNTA
  | I_PREFETCHT0
  | I_PREFETCHT1
  | I_PREFETCHT2
  | I_PREFETCHW
  | I_CMPS
  | I_LODS
  | I_MOVS
  | I_STOS
  | I_OTHER nat

datatype OperandType =
  O_NONE | O_REG | O_IMM | O_IMM1 | O_IMM2 | O_DISP | O_SMEM | O_MEM | O_PC | O_PTR

text \<open>
  One \<^verbatim>\<open>_Operand\<close>: its kind, a register index and its size in bits. The fields are
  \<^verbatim>\<open>type\<close>, \<^verbatim>\<open>index\<close> and \<^verbatim>\<open>size\<close> in the source; they carry the prefix
  \<open>o\<close> here because the plain names are taken in HOL.
\<close>

record DOperand =
  otype :: OperandType
  oindex :: "8 word"
  osize :: "16 word"

text \<open>
  The \<^verbatim>\<open>_DInst\<close>. The operand array \<^verbatim>\<open>ops\<close> is read at the indices 0 and 1 only,
  so it is a function of the index.
\<close>

record DInst =
  opcode :: InstructionType
  ops :: "nat \<Rightarrow> DOperand"
  flags :: "16 word"
  disp :: "64 word"
  dispSize :: "8 word"
  scale :: "8 word"
  base :: "8 word"
  segment :: "8 word"

text \<open>Flag bits and register numbers of distorm's public header.\<close>

definition FLAG_REPNZ :: "16 word" where
  "FLAG_REPNZ = 2"

definition FLAG_REP :: "16 word" where
  "FLAG_REP = 4"

definition FLAG_DST_WR :: "16 word" where
  "FLAG_DST_WR = 64"

definition FLAG_GET_PREFIX :: "16 word \<Rightarrow> 16 word" where
  "FLAG_GET_PREFIX f = f AND 7"

definition R_NONE :: "8 word" where
  "R_NONE = 255"

definition R_FS :: "8 word" where
  "R_FS = 72"

definition R_GS :: "8 word" where
  "R_GS = 73"

definition SEGMENT_GET :: "8 word \<Rightarrow> 8 word" where
  "SEGMENT_GET s = (if s = R_NONE then R_NONE else s AND 127)"

section \<open>Basic-block instructions, references and assembler operands\<close>

datatype ReferredType =
  REFERRED_TYPE_UNKNOWN | REFERRED_TYPE_BLOCK | REFERRED_TYPE_BASIC_BLOCK

text \<open>
  A \<^verbatim>\<open>BasicBlockReference\<close>: what it refers to (a block or a basic block, named by a
  number that stands for the pointer) and the offset into it. The accessors
  \<^verbatim>\<open>block()\<close> and \<^verbatim>\<open>basic_block()\<close> both return the referred object.
\<close>

record BasicBlockReference =
  referred_type :: ReferredType
  referred :: nat
  offset :: "32 word"

text \<open>
  An \<^verbatim>\<open>Instruction\<close> of a basic block: the decoded representation, the answer of
  \<^verbatim>\<open>FindOperandReference\<close> for each operand index (\<open>None\<close> when it returns false),
  and the source range.
\<close>

record Instruction =
  representation :: DInst
  FindOperandReference :: "nat \<Rightarrow> BasicBlockReference option"
  source_range :: nat

datatype RegisterId =
    kRegisterNone
  | kRegisterEax
  | kRegisterEcx
  | kRegisterEdx
  | kRegisterEbx
  | kRegisterEsp
  | kRegisterEbp
  | kRegisterEsi
  | kRegisterEdi
  | kRegisterOther nat

datatype ScaleFactor = kTimes1 | kTimes2 | kTimes4 | kTimes8

text \<open>
  The displacements that the transform builds, one constructor for each overload it
  calls: the empty displacement of an operand built without one, \<^verbatim>\<open>Displacement(value)\<close>,
  \<^verbatim>\<open>Displacement(block, offset)\<close> and \<^verbatim>\<open>Displacement(basic_block)\<close>. The last
  overload takes no offset.
\<close>

datatype Displacement =
    DisplacementNone
  | DisplacementValue "32 word"
  | DisplacementBlock nat "32 word"
  | DisplacementBasicBlock nat

text \<open>
  \<^verbatim>\<open>displacement().reference().referred_type()\<close>, and the test
  \<^verbatim>\<open>size() == kSizeNone\<close>: only the empty displacement has no size.
\<close>

fun displacement_referred_type :: "Displacement \<Rightarrow> ReferredType" where
  "displacement_referred_type (DisplacementBlock b off) = REFERRED_TYPE_BLOCK"
| "displacement_referred_type (DisplacementBasicBlock bb) = REFERRED_TYPE_BASIC_BLOCK"
| "displacement_referred_type d = REFERRED_TYPE_UNKNOWN"

fun displacement_size_is_none :: "Displacement \<Rightarrow> bool" where
  "displacement_size_is_none DisplacementNone = True"
| "displacement_size_is_none d = False"

text \<open>
  The offset of the reference a displacement carries, if it carries one. A reference to
  a basic block points at its start.
\<close>

fun displacement_reference_offset :: "Displacement \<Rightarrow> 32 word option" where
  "displacement_reference_offset (DisplacementBlock b off) = Some off"
| "displacement_reference_offset (DisplacementBasicBlock bb) = Some 0"
| "displacement_reference_offset d = None"

text \<open>The assembler's memory operand: base, index, scale and displacement.\<close>

record Operand =
  operand_base :: RegisterId
  operand_index :: RegisterId
  operand_scale :: ScaleFactor
  operand_displacement :: Displacement

definition Operand_base_displ :: "RegisterId \<Rightarrow> Displacement \<Rightarrow> Operand" where
  "Operand_base_displ b d =
     \<lparr>operand_base = b, operand_index = kRegisterNone, operand_scale = kTimes1,
      operand_displacement = d\<rparr>"

definition Operand_displ :: "Displacement \<Rightarrow> Operand" where
  "Operand_displ d =
     \<lparr>operand_base = kRegisterNone, operand_index = kRegisterNone, operand_scale = kTimes1,
      operand_displacement = d\<rparr>"

definition Operand_base_index_scale :: "RegisterId \<Rightarrow> RegisterId \<Rightarrow> ScaleFactor \<Rightarrow> Operand" where
  "Operand_base_index_scale b i s =
     \<lparr>operand_base = b, operand_index = i, operand_scale = s,
      operand_displacement = DisplacementNone\<rparr>"

definition Operand_base_index_scale_displ ::
  "RegisterId \<Rightarrow> RegisterId \<Rightarrow> ScaleFactor \<Rightarrow> Displacement \<Rightarrow> Operand" where
  "Operand_base_index_scale_displ b i s d =
     \<lparr>operand_base = b, operand_index = i, operand_scale = s, operand_displacement = d\<rparr>"

definition Operand_index_scale_displ :: "RegisterId \<Rightarrow> ScaleFactor \<Rightarrow> Displacement \<Rightarrow> Operand" where
  "Operand_index_scale_displ i s d =
     \<lparr>operand_base = kRegisterNone, operand_index = i, operand_scale = s,
      operand_displacement = d\<rparr>"

text \<open>
  The helpers of \<^verbatim>\<open>core\<close> that the transform calls on a decoded instruction:
  \<^verbatim>\<open>core::IsNop\<close> and \<^verbatim>\<open>core::GetRegister\<close> (followed in the source by
  \<^verbatim>\<open>assm::CastAsRegister32\<close>, which only asserts the register's width). They are
  parameters of the model.
\<close>

record disassembler_util =
  IsNop :: "DInst \<Rightarrow> bool"
  GetRegister :: "8 word \<Rightarrow> RegisterId"

section \<open>Memory access information\<close>

datatype MemoryAccessMode =
  kNoAccess | kReadAccess | kWriteAccess | kInstrAccess | kRepzAccess | kRepnzAccess

text \<open>
  \<^verbatim>\<open>MemoryAccessInfo\<close>, with the fields \<^verbatim>\<open>mode\<close>, \<^verbatim>\<open>size\<close>, \<^verbatim>\<open>opcode\<close> and
  \<^verbatim>\<open>save_flags\<close> of the source. The size is a count of bytes.
\<close>

record MemoryAccessInfo =
  info_mode :: MemoryAccessMode
  info_size :: nat
  info_opcode :: InstructionType
  info_save_flags :: bool

section \<open>Classifying one instruction\<close>

text \<open>
  \<^verbatim>\<open>DCHECK\<close> and \<^verbatim>\<open>DCHECK_EQ\<close> are assertions of debug builds and expand to nothing
  in a release build. The definitions follow the release build: an assertion is not a
  branch of the function.
\<close>

fun ShouldInstrumentOpcode :: "InstructionType \<Rightarrow> bool" where
  "ShouldInstrumentOpcode I_LEA = False"
| "ShouldInstrumentOpcode I_CLFLUSH = False"
| "ShouldInstrumentOpcode I_PREFETCH = False"
| "ShouldInstrumentOpcode I_PREFETCHNTA = False"
| "ShouldInstrumentOpcode I_PREFETCHT0 = False"
| "ShouldInstrumentOpcode I_PREFETCHT1 = False"
| "ShouldInstrumentOpcode I_PREFETCHT2 = False"
| "ShouldInstrumentOpcode I_PREFETCHW = False"
| "ShouldInstrumentOpcode opc = True"

text \<open>
  \<^verbatim>\<open>access_size_bytes\<close> is a \<^verbatim>\<open>size_t\<close>, \<^verbatim>\<open>repr.disp\<close> a 64-bit unsigned
  integer, and the displacement built from a value holds 32 bits: the sum is truncated.
\<close>

definition ComputeDisplacementForOperand :: "Instruction \<Rightarrow> nat \<Rightarrow> Displacement" where
  "ComputeDisplacementForOperand instr operand =
     (let repr = representation instr;
          access_size_bytes = (ucast (osize (ops repr operand) div 8) :: 32 word)
      in if dispSize repr = 0 then DisplacementValue (access_size_bytes - 1)
         else (case FindOperandReference instr operand of
                 Some reference \<Rightarrow>
                   if referred_type reference = REFERRED_TYPE_BLOCK
                   then DisplacementBlock (referred reference)
                          (offset reference + access_size_bytes - 1)
                   else DisplacementBasicBlock (referred reference)
               | None \<Rightarrow>
                   DisplacementValue (ucast (disp repr + ucast access_size_bytes - 1))))"

definition IsInstrumentable :: "DOperand \<Rightarrow> bool" where
  "IsInstrumentable op = (case otype op of O_SMEM \<Rightarrow> True | O_MEM \<Rightarrow> True | _ \<Rightarrow> False)"

fun IsSpecialInstruction :: "InstructionType \<Rightarrow> bool" where
  "IsSpecialInstruction I_CMPS = True"
| "IsSpecialInstruction I_LODS = True"
| "IsSpecialInstruction I_MOVS = True"
| "IsSpecialInstruction I_STOS = True"
| "IsSpecialInstruction opc = False"

text \<open>The operand that \<^verbatim>\<open>DecodeMemoryAccess\<close> picks, \<open>None\<close> where it returns false.\<close>

definition DecodeMemoryAccess_mem_op_id :: "DInst \<Rightarrow> nat option" where
  "DecodeMemoryAccess_mem_op_id repr =
     (if IsInstrumentable (ops repr 0) \<and> IsInstrumentable (ops repr 1) then Some 0
      else if IsInstrumentable (ops repr 0) then Some 0
      else if IsInstrumentable (ops repr 1) then Some 1
      else None)"

definition DecodeMemoryAccess_mode :: "Instruction \<Rightarrow> nat \<Rightarrow> MemoryAccessMode" where
  "DecodeMemoryAccess_mode instr mem_op_id =
     (let repr = representation instr
      in if FLAG_GET_PREFIX (flags repr) AND FLAG_REPNZ \<noteq> 0 then kRepnzAccess
         else if FLAG_GET_PREFIX (flags repr) AND FLAG_REP \<noteq> 0 then kRepzAccess
         else if IsSpecialInstruction (opcode repr) then kInstrAccess
         else if flags repr AND FLAG_DST_WR \<noteq> 0 \<and> mem_op_id = 0 then kWriteAccess
         else kReadAccess)"

definition DecodeMemoryAccess_scale :: "8 word \<Rightarrow> ScaleFactor" where
  "DecodeMemoryAccess_scale s =
     (if s = 2 then kTimes2 else if s = 4 then kTimes4 else if s = 8 then kTimes8
      else kTimes1)"

definition DecodeMemoryAccess_operand ::
  "disassembler_util \<Rightarrow> Instruction \<Rightarrow> nat \<Rightarrow> Operand option" where
  "DecodeMemoryAccess_operand core instr mem_op_id =
     (let repr = representation instr
      in if otype (ops repr mem_op_id) = O_SMEM then
           (let base_reg = GetRegister core (oindex (ops repr mem_op_id));
                displ = ComputeDisplacementForOperand instr mem_op_id
            in Some (Operand_base_displ base_reg displ))
         else if otype (ops repr 0) = O_MEM \<or> otype (ops repr 1) = O_MEM then
           (let index_reg = GetRegister core (oindex (ops repr mem_op_id));
                scale_factor = DecodeMemoryAccess_scale (scale repr);
                displ = ComputeDisplacementForOperand instr mem_op_id
            in if base repr \<noteq> R_NONE then
                 (let base_reg = GetRegister core (base repr)
                  in if displacement_size_is_none displ
                     then Some (Operand_base_index_scale base_reg index_reg scale_factor)
                     else Some (Operand_base_index_scale_displ base_reg index_reg
                                  scale_factor displ))
               else Some (Operand_index_scale_displ index_reg scale_factor displ))
         else None)"

text \<open>
  \<^verbatim>\<open>DecodeMemoryAccess\<close> writes the operand and the access information through two
  pointers and returns a boolean; here it returns both values, or \<open>None\<close> for false. The
  information it is given is the caller's: the fields it does not write keep their
  values.
\<close>

definition DecodeMemoryAccess ::
  "disassembler_util \<Rightarrow> Instruction \<Rightarrow> MemoryAccessInfo \<Rightarrow> (Operand \<times> MemoryAccessInfo) option" where
  "DecodeMemoryAccess core instr info =
     (let repr = representation instr
      in if IsNop core repr then None
         else (case DecodeMemoryAccess_mem_op_id repr of
                 None \<Rightarrow> None
               | Some mem_op_id \<Rightarrow>
                   (let info1 = info\<lparr>info_size := unat (osize (ops repr mem_op_id) div 8)\<rparr>;
                        info2 = info1\<lparr>info_mode := DecodeMemoryAccess_mode instr mem_op_id\<rparr>;
                        info3 = (if info_mode info2 = kRepnzAccess \<or>
                                    info_mode info2 = kRepzAccess \<or>
                                    info_mode info2 = kInstrAccess
                                 then info2\<lparr>info_opcode := opcode repr\<rparr> else info2)
                    in (case DecodeMemoryAccess_operand core instr mem_op_id of
                          None \<Rightarrow> None
                        | Some access \<Rightarrow> Some (access, info3)))))"

section \<open>Probe names\<close>

datatype ImageFormat = UNKNOWN_IMAGE_FORMAT | PE_IMAGE | COFF_IMAGE

text \<open>
  \<^verbatim>\<open>base::ToLowerASCII\<close> maps the letters A to Z to a to z and leaves every other
  character as it is.
\<close>

definition ToLowerASCII_char :: "char \<Rightarrow> char" where
  "ToLowerASCII_char c =
     (if 65 \<le> (of_char c :: nat) \<and> (of_char c :: nat) \<le> 90
      then char_of ((of_char c :: nat) + 32) else c)"

definition ToLowerASCII :: "string \<Rightarrow> string" where
  "ToLowerASCII str = map ToLowerASCII_char str"

text \<open>The conversion \<^verbatim>\<open>%d\<close> of \<^verbatim>\<open>StringPrintf\<close>, on an unsigned value.\<close>

definition digit_char :: "nat \<Rightarrow> char" where
  "digit_char d = char_of (48 + d)"

function StringPrintf_d :: "nat \<Rightarrow> string" where
  "StringPrintf_d n =
     (if n < 10 then [digit_char n] else StringPrintf_d (n div 10) @ [digit_char (n mod 10)])"
  by pat_completeness auto
termination
  by (relation "measure (\<lambda>n. n)") auto

declare StringPrintf_d.simps [simp del]

text \<open>
  \<^verbatim>\<open>GET_MNEMONIC_NAME\<close> reads distorm's table of mnemonic names; the table is the
  parameter \<open>mnemonic_name\<close>. The format string is
  \<^verbatim>\<open>"%sasan_check%s_%d_byte_%s_access%s"\<close>.
\<close>

definition GetAsanCheckAccessFunctionName ::
  "(InstructionType \<Rightarrow> string) \<Rightarrow> MemoryAccessInfo \<Rightarrow> ImageFormat \<Rightarrow> string" where
  "GetAsanCheckAccessFunctionName mnemonic_name info image_format =
     (let rep_str = (if info_mode info = kRepzAccess then ''_repz''
                     else if info_mode info = kRepnzAccess then ''_repnz''
                     else []);
          access_mode_str = (if info_mode info = kReadAccess then ''read''
                             else if info_mode info = kWriteAccess then ''write''
                             else mnemonic_name (info_opcode info));
          function_name =
            (if image_format = PE_IMAGE then [] else ''_'') @ ''asan_check'' @ rep_str @
            ''_'' @ StringPrintf_d (info_size info) @ ''_byte_'' @ access_mode_str @
            ''_access'' @ (if info_save_flags info then [] else ''_no_flags'')
      in ToLowerASCII function_name)"

section \<open>The assembler and the probe call\<close>

datatype ReferenceType = PC_RELATIVE_REF | ABSOLUTE_REF | RELATIVE_REF | FILE_OFFSET_REF

text \<open>
  A \<^verbatim>\<open>BlockGraph::Reference\<close>: type, size, the referenced block, offset and base.
\<close>

record Reference =
  rtype :: ReferenceType
  rsize :: nat
  referenced :: nat
  roffset :: "32 word"
  rbase :: "32 word"

datatype Immediate = ImmediateBlock nat "32 word"

text \<open>The instructions that the transform asks the assembler for.\<close>

datatype AsmInstruction =
    Asm_push RegisterId
  | Asm_lea RegisterId Operand
  | Asm_mov RegisterId Operand
  | Asm_call_operand Operand
  | Asm_call_immediate Immediate
  | Asm_ret
  | Asm_ret_n nat

text \<open>
  The instruction list of a basic block after the transform holds the decoded
  instructions it had on entry and those the assembler inserted, the latter with the
  source range the assembler was told to copy, if any.
\<close>

datatype BBInstr = Decoded Instruction | Inserted AsmInstruction "nat option"

text \<open>
  A \<^verbatim>\<open>BasicBlockAssembler\<close> built on a position of an instruction list inserts every
  instruction before that position: \<open>asm_before\<close> is the list up to the position.
\<close>

record BasicBlockAssembler =
  asm_before :: "BBInstr list"
  asm_source_range :: "nat option"

definition asm_emit :: "AsmInstruction \<Rightarrow> BasicBlockAssembler \<Rightarrow> BasicBlockAssembler" where
  "asm_emit i bb_asm =
     bb_asm\<lparr>asm_before := asm_before bb_asm @ [Inserted i (asm_source_range bb_asm)]\<rparr>"

definition set_source_range :: "nat \<Rightarrow> BasicBlockAssembler \<Rightarrow> BasicBlockAssembler" where
  "set_source_range r bb_asm = bb_asm\<lparr>asm_source_range := Some r\<rparr>"

text \<open>
  \<^verbatim>\<open>InjectAsanHook\<close>. Its parameter \<^verbatim>\<open>state\<close> is not read by the source and is
  left out.
\<close>

definition InjectAsanHook ::
  "BasicBlockAssembler \<Rightarrow> MemoryAccessInfo \<Rightarrow> Operand \<Rightarrow> Reference \<Rightarrow> ImageFormat
   \<Rightarrow> BasicBlockAssembler" where
  "InjectAsanHook bb_asm info op hook image_format =
     (let bb_asm1 = (if info_mode info = kReadAccess \<or> info_mode info = kWriteAccess
                     then asm_emit (Asm_lea kRegisterEdx op)
                            (asm_emit (Asm_push kRegisterEdx) bb_asm)
                     else bb_asm)
      in if image_format = PE_IMAGE
         then asm_emit (Asm_call_operand
                          (Operand_displ (DisplacementBlock (referenced hook) (roffset hook))))
                bb_asm1
         else asm_emit (Asm_call_immediate (ImmediateBlock (referenced hook) (roffset hook)))
                bb_asm1)"

section \<open>The instrumentation rate\<close>

text \<open>
  The rate is a \<^verbatim>\<open>double\<close>. The transform only compares doubles, with each other and
  with the constants 0.0 and 1.0, so a double is modelled by its value: a real number,
  an infinity or a NaN. The comparisons follow IEEE 754: every comparison with a NaN is
  false.
\<close>

datatype double = NaN | MinusInfinity | Finite real | PlusInfinity

fun double_less :: "double \<Rightarrow> double \<Rightarrow> bool" where
  "double_less (Finite a) (Finite b) = (a < b)"
| "double_less (Finite a) PlusInfinity = True"
| "double_less MinusInfinity (Finite b) = True"
| "double_less MinusInfinity PlusInfinity = True"
| "double_less a b = False"

fun double_eq :: "double \<Rightarrow> double \<Rightarrow> bool" where
  "double_eq (Finite a) (Finite b) = (a = b)"
| "double_eq MinusInfinity MinusInfinity = True"
| "double_eq PlusInfinity PlusInfinity = True"
| "double_eq a b = False"

definition double_ge :: "double \<Rightarrow> double \<Rightarrow> bool" where
  "double_ge a b = (double_less b a \<or> double_eq a b)"

text \<open>
  \<^verbatim>\<open>std::min(a, b)\<close> is \<^verbatim>\<open>(b < a) ? b : a\<close> and \<^verbatim>\<open>std::max(a, b)\<close> is
  \<^verbatim>\<open>(a < b) ? b : a\<close>.
\<close>

definition std_min :: "double \<Rightarrow> double \<Rightarrow> double" where
  "std_min a b = (if double_less b a then b else a)"

definition std_max :: "double \<Rightarrow> double \<Rightarrow> double" where
  "std_max a b = (if double_less a b then b else a)"

section \<open>The basic-block transform\<close>

datatype StackAccessMode = kUnsafeStackAccess | kSafeStackAccess

text \<open>
  A basic block of a subgraph is a code block, with a list of instructions, or another
  kind of block, for which \<^verbatim>\<open>BasicCodeBlock::Cast\<close> returns null. The number is the
  identity of the block.
\<close>

datatype 'i BasicBlock = BasicCodeBlock nat "'i list" | BasicOtherBlock nat

text \<open>
  What the transform calls outside this file: the helpers of \<^verbatim>\<open>core\<close>, the
  process-wide random generator (\<open>RandDouble n\<close> is the draw number \<open>n\<close>), the liveness
  analysis and the analysis of redundant memory accesses with their states (a new
  analysis object is \<open>LivenessAnalysis\<close> and \<open>MemoryAccessAnalysis\<close>, a
  default-constructed state \<open>liveness_State\<close> and \<open>memory_State\<close>), and the test for
  unexpected manipulations of the stack frame. \<open>'la\<close> and \<open>'ma\<close> are the analysis
  objects, \<open>'ls\<close> and \<open>'ms\<close> their states.
\<close>

record ('la, 'ls, 'ma, 'ms) ext =
  core :: disassembler_util
  RandDouble :: "nat \<Rightarrow> double"
  LivenessAnalysis :: 'la
  MemoryAccessAnalysis :: 'ma
  liveness_Analyze :: "Instruction BasicBlock list \<Rightarrow> 'la \<Rightarrow> 'la"
  GetStateAtExitOf :: "'la \<Rightarrow> nat \<Rightarrow> 'ls"
  PropagateBackward :: "Instruction \<Rightarrow> 'ls \<Rightarrow> 'ls"
  AreArithmeticFlagsLive :: "'ls \<Rightarrow> bool"
  liveness_State :: 'ls
  memory_Analyze :: "Instruction BasicBlock list \<Rightarrow> 'ma \<Rightarrow> 'ma"
  GetStateAtEntryOf :: "'ma \<Rightarrow> nat \<Rightarrow> 'ms"
  HasNonRedundantAccess :: "'ms \<Rightarrow> Instruction \<Rightarrow> bool"
  PropagateForward :: "Instruction \<Rightarrow> 'ms \<Rightarrow> 'ms"
  memory_State :: 'ms
  HasUnexpectedStackFrameManipulation :: "Instruction BasicBlock list \<Rightarrow> bool"

text \<open>
  The members of \<^verbatim>\<open>AsanBasicBlockTransform\<close>. The hook map is a \<^verbatim>\<open>std::map\<close>
  ordered by the \<^verbatim>\<open>operator<\<close> at the end of the source file, which compares the
  four fields of the key one after the other: two keys are equivalent exactly when they
  are equal, and the map is a partial function of the key. \<open>IsFiltered\<close> is the filter
  the caller provides.
\<close>

record ('la, 'ma) AsanBasicBlockTransform =
  check_access_hooks :: "MemoryAccessInfo \<Rightarrow> Reference option"
  liveness :: 'la
  memory_accesses :: 'ma
  debug_friendly :: bool
  use_liveness_analysis :: bool
  remove_redundant_checks :: bool
  instrumentation_rate :: double
  dry_run :: bool
  instrumentation_happened :: bool
  IsFiltered :: "Instruction \<Rightarrow> bool"

text \<open>
  The ways the pass fails. The source returns false after logging a message; the
  constructor says which return it is. \<open>CheckFailure\<close> is a failed \<^verbatim>\<open>CHECK\<close>, which
  stops the process in every build.
\<close>

datatype error =
    AlreadyInstrumented
  | UnknownProbe MemoryAccessInfo
  | ImportFailure
  | DefaultHookNotFound MemoryAccessInfo
  | ThunkBuildFailure
  | TransformFailure
  | CheckFailure

definition set_instrumentation_rate ::
  "double \<Rightarrow> ('la, 'ma) AsanBasicBlockTransform \<Rightarrow> ('la, 'ma) AsanBasicBlockTransform" where
  "set_instrumentation_rate rate t =
     t\<lparr>instrumentation_rate := std_max (Finite 0) (std_min (Finite 1) rate)\<rparr>"

text \<open>
  The part of the loop body of \<^verbatim>\<open>InstrumentBasicBlock\<close> that decides, from the
  instruction alone, whether its access is a candidate: the fresh
  \<^verbatim>\<open>MemoryAccessInfo\<close>, the call of \<^verbatim>\<open>DecodeMemoryAccess\<close> and the tests that
  follow it up to the filter, each of which ends the iteration with \<^verbatim>\<open>continue\<close>.
\<close>

definition InstrumentBasicBlock_info :: MemoryAccessInfo where
  "InstrumentBasicBlock_info =
     \<lparr>info_mode = kNoAccess, info_size = 0, info_opcode = I_UNDEFINED,
      info_save_flags = True\<rparr>"

definition InstrumentBasicBlock_access ::
  "disassembler_util \<Rightarrow> ('la, 'ma) AsanBasicBlockTransform \<Rightarrow> StackAccessMode \<Rightarrow> Instruction
   \<Rightarrow> (Operand \<times> MemoryAccessInfo) option" where
  "InstrumentBasicBlock_access c t stack_mode instr =
     (let repr = representation instr
      in case DecodeMemoryAccess c instr InstrumentBasicBlock_info of
           None \<Rightarrow> None
         | Some (operand, info) \<Rightarrow>
             if info_mode info = kNoAccess then None
             else if displacement_referred_type (operand_displacement operand) =
                     REFERRED_TYPE_BASIC_BLOCK then None
             else if displacement_referred_type (operand_displacement operand) =
                     REFERRED_TYPE_BLOCK then None
             else if \<not> ShouldInstrumentOpcode (opcode repr) then None
             else if stack_mode = kSafeStackAccess \<and>
                     (operand_base operand = kRegisterEsp \<or>
                      operand_base operand = kRegisterEbp) then None
             else if SEGMENT_GET (segment repr) = R_FS \<or> SEGMENT_GET (segment repr) = R_GS
                  then None
             else if IsFiltered t instr then None
             else Some (operand, info))"

text \<open>
  The state of the walk over the instructions: the instructions before the iterator
  (those already visited and those inserted), the iterator over the liveness states
  and the current liveness state, the state of the redundancy analysis, and the number
  of draws taken from the random generator.
\<close>

record ('ls, 'ms) walk =
  walk_instructions :: "BBInstr list"
  iter_state :: "'ls list"
  state :: 'ls
  memory_state :: 'ms
  rand_draws :: nat

text \<open>
  One iteration of the loop, in two halves. The first half decides whether the access
  of the instruction is instrumented, and with which \<^verbatim>\<open>MemoryAccessInfo\<close>: it
  steps the liveness iterator and the redundancy analysis, classifies the access,
  samples, and lets the liveness of the flags choose \<^verbatim>\<open>save_flags\<close>. Every
  \<^verbatim>\<open>continue\<close> of the source is a result \<open>None\<close>. The list of liveness states has
  one state for each instruction, so the iterator is never at its end when it is read;
  the model keeps the current state there.
\<close>

definition InstrumentBasicBlock_select ::
  "('la, 'ls, 'ma, 'ms) ext \<Rightarrow> StackAccessMode \<Rightarrow> Instruction
   \<Rightarrow> ('la, 'ma) AsanBasicBlockTransform \<Rightarrow> ('ls, 'ms) walk
   \<Rightarrow> ('ls, 'ms) walk \<times> (Operand \<times> MemoryAccessInfo) option" where
  "InstrumentBasicBlock_select x stack_mode instr t w =
     (let w1 = (if use_liveness_analysis t
                then (case iter_state w of
                        s # rest \<Rightarrow> w\<lparr>state := s, iter_state := rest\<rparr>
                      | [] \<Rightarrow> w)
                else w);
          need_memory_access_check =
            (if remove_redundant_checks t
             then HasNonRedundantAccess x (memory_state w1) instr else True);
          w2 = (if remove_redundant_checks t
                then w1\<lparr>memory_state := PropagateForward x instr (memory_state w1)\<rparr>
                else w1)
      in if \<not> need_memory_access_check then (w2, None)
         else (case InstrumentBasicBlock_access (core x) t stack_mode instr of
                 None \<Rightarrow> (w2, None)
               | Some (operand, info) \<Rightarrow>
                   (let sampled = double_less (instrumentation_rate t) (Finite 1);
                        w3 = (if sampled then w2\<lparr>rand_draws := Suc (rand_draws w2)\<rparr> else w2)
                    in if sampled \<and>
                          double_ge (RandDouble x (rand_draws w2)) (instrumentation_rate t)
                       then (w3, None)
                       else
                         (let info1 = (if use_liveness_analysis t \<and>
                                          (info_mode info = kReadAccess \<or>
                                           info_mode info = kWriteAccess)
                                       then info\<lparr>info_save_flags :=
                                                   AreArithmeticFlagsLive x (state w3)\<rparr>
                                       else info)
                          in (w3, Some (operand, info1))))))"

text \<open>
  The second half: the assembler on the position of the instruction, the mark that an
  instrumentation happened and, unless the run is dry, the lookup of the hook and the
  probe call.
\<close>

definition InstrumentBasicBlock_emit ::
  "ImageFormat \<Rightarrow> Instruction \<Rightarrow> Operand \<Rightarrow> MemoryAccessInfo
   \<Rightarrow> ('la, 'ma) AsanBasicBlockTransform \<Rightarrow> ('ls, 'ms) walk
   \<Rightarrow> error option \<times> ('la, 'ma) AsanBasicBlockTransform \<times> ('ls, 'ms) walk" where
  "InstrumentBasicBlock_emit image_format instr operand info t w =
     (let bb_asm0 = \<lparr>asm_before = walk_instructions w, asm_source_range = None\<rparr>;
          bb_asm = (if debug_friendly t then set_source_range (source_range instr) bb_asm0
                    else bb_asm0);
          t1 = t\<lparr>instrumentation_happened := True\<rparr>
      in if \<not> dry_run t
         then (case check_access_hooks t info of
                 None \<Rightarrow> (Some (UnknownProbe info), t1, w)
               | Some hook \<Rightarrow>
                   (None, t1,
                    w\<lparr>walk_instructions :=
                        asm_before (InjectAsanHook bb_asm info operand hook image_format)\<rparr>))
         else (None, t1, w))"

definition InstrumentBasicBlock_iteration ::
  "('la, 'ls, 'ma, 'ms) ext \<Rightarrow> StackAccessMode \<Rightarrow> ImageFormat \<Rightarrow> Instruction
   \<Rightarrow> ('la, 'ma) AsanBasicBlockTransform \<Rightarrow> ('ls, 'ms) walk
   \<Rightarrow> error option \<times> ('la, 'ma) AsanBasicBlockTransform \<times> ('ls, 'ms) walk" where
  "InstrumentBasicBlock_iteration x stack_mode image_format instr t w =
     (case InstrumentBasicBlock_select x stack_mode instr t w of
        (w1, None) \<Rightarrow> (None, t, w1)
      | (w1, Some (operand, info)) \<Rightarrow>
          InstrumentBasicBlock_emit image_format instr operand info t w1)"

text \<open>
  The loop: after an iteration the iterator moves past the instruction; a failed
  iteration returns at once, and the instructions not yet visited stay as they are.
\<close>

fun InstrumentBasicBlock_loop ::
  "('la, 'ls, 'ma, 'ms) ext \<Rightarrow> StackAccessMode \<Rightarrow> ImageFormat \<Rightarrow> Instruction list
   \<Rightarrow> ('la, 'ma) AsanBasicBlockTransform \<Rightarrow> ('ls, 'ms) walk
   \<Rightarrow> error option \<times> ('la, 'ma) AsanBasicBlockTransform \<times> ('ls, 'ms) walk" where
  "InstrumentBasicBlock_loop x stack_mode image_format [] t w = (None, t, w)"
| "InstrumentBasicBlock_loop x stack_mode image_format (instr # rest) t w =
     (case InstrumentBasicBlock_iteration x stack_mode image_format instr t w of
        (Some e, t1, w1) \<Rightarrow>
          (Some e, t1,
           w1\<lparr>walk_instructions := walk_instructions w1 @ map Decoded (instr # rest)\<rparr>)
      | (None, t1, w1) \<Rightarrow>
          InstrumentBasicBlock_loop x stack_mode image_format rest t1
            (w1\<lparr>walk_instructions := walk_instructions w1 @ [Decoded instr]\<rparr>))"

text \<open>
  The liveness states, computed from the last instruction to the first; each state is
  pushed at the front of the list.
\<close>

fun InstrumentBasicBlock_states ::
  "('la, 'ls, 'ma, 'ms) ext \<Rightarrow> Instruction list \<Rightarrow> 'ls \<Rightarrow> 'ls list \<Rightarrow> 'ls \<times> 'ls list" where
  "InstrumentBasicBlock_states x [] s states = (s, states)"
| "InstrumentBasicBlock_states x (instr # rev_rest) s states =
     (let s1 = PropagateBackward x instr s
      in InstrumentBasicBlock_states x rev_rest s1 (s1 # states))"

text \<open>
  \<^verbatim>\<open>InstrumentBasicBlock\<close> on the basic block \<open>bb\<close> with the instructions \<open>instrs\<close>,
  after \<open>draws\<close> draws from the random generator. It returns the error, if any, the
  transform, the instruction list of the block and the number of draws.
\<close>

definition InstrumentBasicBlock ::
  "('la, 'ls, 'ma, 'ms) ext \<Rightarrow> ('la, 'ma) AsanBasicBlockTransform \<Rightarrow> nat \<Rightarrow> Instruction list
   \<Rightarrow> StackAccessMode \<Rightarrow> ImageFormat \<Rightarrow> nat
   \<Rightarrow> error option \<times> ('la, 'ma) AsanBasicBlockTransform \<times> BBInstr list \<times> nat" where
  "InstrumentBasicBlock x t bb instrs stack_mode image_format draws =
     (if double_eq (instrumentation_rate t) (Finite 0)
      then (None, t, map Decoded instrs, draws)
      else
        (let (s, states) =
               (if use_liveness_analysis t
                then InstrumentBasicBlock_states x (rev instrs)
                       (GetStateAtExitOf x (liveness t) bb) []
                else (liveness_State x, []));
             ms = (if remove_redundant_checks t
                   then GetStateAtEntryOf x (memory_accesses t) bb else memory_State x);
             w = \<lparr>walk_instructions = [], iter_state = states, state = s,
                  memory_state = ms, rand_draws = draws\<rparr>
         in case InstrumentBasicBlock_loop x stack_mode image_format instrs t w of
              (e, t1, w1) \<Rightarrow> (e, t1, walk_instructions w1, rand_draws w1)))"

section \<open>Running the transform over a subgraph\<close>

text \<open>
  \<^verbatim>\<open>AsanBasicBlockTransform::TransformBasicBlockSubGraph\<close>: the two analyses, the
  stack mode, and the loop over the basic blocks, which returns false at the first
  block whose instrumentation fails. The blocks after it are not visited.
\<close>

fun untouched :: "Instruction BasicBlock \<Rightarrow> BBInstr BasicBlock" where
  "untouched (BasicCodeBlock bb instrs) = BasicCodeBlock bb (map Decoded instrs)"
| "untouched (BasicOtherBlock bb) = BasicOtherBlock bb"

fun TransformBasicBlockSubGraph_loop ::
  "('la, 'ls, 'ma, 'ms) ext \<Rightarrow> StackAccessMode \<Rightarrow> ImageFormat \<Rightarrow> Instruction BasicBlock list
   \<Rightarrow> ('la, 'ma) AsanBasicBlockTransform \<Rightarrow> nat
   \<Rightarrow> error option \<times> ('la, 'ma) AsanBasicBlockTransform \<times> BBInstr BasicBlock list \<times> nat" where
  "TransformBasicBlockSubGraph_loop x stack_mode fmt [] t draws = (None, t, [], draws)"
| "TransformBasicBlockSubGraph_loop x stack_mode fmt (BasicOtherBlock bb # rest) t draws =
     (case TransformBasicBlockSubGraph_loop x stack_mode fmt rest t draws of
        (e, t1, out, draws1) \<Rightarrow> (e, t1, BasicOtherBlock bb # out, draws1))"
| "TransformBasicBlockSubGraph_loop x stack_mode fmt (BasicCodeBlock bb instrs # rest) t draws =
     (case InstrumentBasicBlock x t bb instrs stack_mode fmt draws of
        (Some e, t1, instrs1, draws1) \<Rightarrow>
          (Some e, t1, BasicCodeBlock bb instrs1 # map untouched rest, draws1)
      | (None, t1, instrs1, draws1) \<Rightarrow>
          (case TransformBasicBlockSubGraph_loop x stack_mode fmt rest t1 draws1 of
             (e, t2, out, draws2) \<Rightarrow> (e, t2, BasicCodeBlock bb instrs1 # out, draws2)))"

definition TransformBasicBlockSubGraph ::
  "('la, 'ls, 'ma, 'ms) ext \<Rightarrow> ('la, 'ma) AsanBasicBlockTransform \<Rightarrow> ImageFormat
   \<Rightarrow> Instruction BasicBlock list \<Rightarrow> nat
   \<Rightarrow> error option \<times> ('la, 'ma) AsanBasicBlockTransform \<times> BBInstr BasicBlock list \<times> nat" where
  "TransformBasicBlockSubGraph x t fmt subgraph draws =
     (let t1 = (if use_liveness_analysis t
                then t\<lparr>liveness := liveness_Analyze x subgraph (liveness t)\<rparr> else t);
          t2 = (if remove_redundant_checks t1
                then t1\<lparr>memory_accesses := memory_Analyze x subgraph (memory_accesses t1)\<rparr>
                else t1);
          stack_mode = (if \<not> HasUnexpectedStackFrameManipulation x subgraph
                        then kSafeStackAccess else kUnsafeStackAccess)
      in TransformBasicBlockSubGraph_loop x stack_mode fmt subgraph t2 draws)"

text \<open>
  \<^verbatim>\<open>HotPatchingAsanBasicBlockTransform\<close> holds a pointer to the basic-block transform
  and the flag \<^verbatim>\<open>prepared_for_hot_patching_\<close>. Its
  \<^verbatim>\<open>TransformBasicBlockSubGraph\<close> calls the basic-block transform and then, if an
  instrumentation happened, the transform that prepares the block for hot patching
  (\<^verbatim>\<open>PEHotPatchingBasicBlockTransform\<close>, the parameter \<open>hp_bb_transform\<close>, which
  returns its boolean and the subgraph). The source does not read the value either call
  returns, and returns true.
\<close>

record ('la, 'ma) HotPatchingAsanBasicBlockTransform =
  asan_bb_transform :: "('la, 'ma) AsanBasicBlockTransform"
  prepared_for_hot_patching :: bool

definition HotPatching_TransformBasicBlockSubGraph ::
  "('la, 'ls, 'ma, 'ms) ext \<Rightarrow> (BBInstr BasicBlock list \<Rightarrow> bool \<times> BBInstr BasicBlock list)
   \<Rightarrow> ('la, 'ma) HotPatchingAsanBasicBlockTransform \<Rightarrow> ImageFormat
   \<Rightarrow> Instruction BasicBlock list \<Rightarrow> nat
   \<Rightarrow> error option \<times> ('la, 'ma) HotPatchingAsanBasicBlockTransform \<times>
      BBInstr BasicBlock list \<times> nat" where
  "HotPatching_TransformBasicBlockSubGraph x hp_bb_transform hp fmt subgraph draws =
     (let hp1 = hp\<lparr>prepared_for_hot_patching := False\<rparr>
      in case TransformBasicBlockSubGraph x (asan_bb_transform hp1) fmt subgraph draws of
           (e, t1, subgraph1, draws1) \<Rightarrow>
             (let hp2 = hp1\<lparr>asan_bb_transform := t1\<rparr>
              in if instrumentation_happened t1
                 then (case hp_bb_transform subgraph1 of
                         (ok, subgraph2) \<Rightarrow>
                           (None, hp2\<lparr>prepared_for_hot_patching := True\<rparr>, subgraph2, draws1))
                 else (None, hp2, subgraph1, draws1)))"

section \<open>The block graph\<close>

record Section =
  section_name :: string
  section_characteristics :: "32 word"

datatype BlockType = CODE_BLOCK | DATA_BLOCK

text \<open>
  A block: its type, size and name, the section it lies in, and its references by
  offset. A block is named by its index in the list of blocks of the graph, a section
  by its index in the list of sections.
\<close>

record Block =
  block_type :: BlockType
  block_size :: nat
  block_name :: string
  block_section :: "nat option"
  block_references :: "32 word \<Rightarrow> Reference option"

record BlockGraph =
  bg_image_format :: ImageFormat
  bg_sections :: "Section list"
  bg_blocks :: "Block list"



fun FindSection_from :: "nat \<Rightarrow> Section list \<Rightarrow> string \<Rightarrow> nat option" where
  "FindSection_from i [] name = None"
| "FindSection_from i (s # rest) name =
     (if section_name s = name then Some i else FindSection_from (Suc i) rest name)"

definition FindSection :: "BlockGraph \<Rightarrow> string \<Rightarrow> nat option" where
  "FindSection bg name = FindSection_from 0 (bg_sections bg) name"



section \<open>Importing the probes\<close>

datatype TransformMode = kAlwaysImport | kFindOnly

text \<open>
  An \<^verbatim>\<open>ImportedModule\<close>: name, date, the symbols in the order of their indices, and,
  once an import transform has run, the reference of each symbol
  (\<^verbatim>\<open>GetSymbolReference\<close>, \<open>None\<close> where it returns false). \<^verbatim>\<open>AddSymbol\<close> returns
  the index of the symbol, which is the index it already has if the name is present.
\<close>

record ImportedModule =
  imported_name :: string
  imported_date :: nat
  imported_symbols :: "(string \<times> TransformMode) list"
  GetSymbolReference :: "nat \<Rightarrow> Reference option"




text \<open>
  The description of a block that \<^verbatim>\<open>BlockBuilder::Merge\<close> is asked to build: name,
  section and code.
\<close>

record BlockDescription =
  description_name :: string
  description_section :: nat
  description_instructions :: "AsmInstruction list"

text \<open>
  What the pass calls in the block-graph library and elsewhere: the two import
  transforms (\<open>None\<close> when applying the transform fails; otherwise the graph and the
  module with its references), \<^verbatim>\<open>BlockBuilder::Merge\<close> (the graph and the new block),
  the entry thunk transform for a DLL name, the filter of statically linked functions
  (whether it is empty and what it intercepts, for each value of
  \<^verbatim>\<open>use_interceptors\<close>), the policy's \<^verbatim>\<open>BlockIsSafeToBasicBlockDecompose\<close>, the
  transform that prepares a subgraph for hot patching, and distorm's table of
  mnemonics.
\<close>

record pass_ext =
  PEAddImportsTransform :: "BlockGraph \<Rightarrow> ImportedModule \<Rightarrow> (BlockGraph \<times> ImportedModule) option"
  CoffAddImportsTransform :: "BlockGraph \<Rightarrow> ImportedModule \<Rightarrow> (BlockGraph \<times> ImportedModule) option"
  Merge :: "BlockGraph \<Rightarrow> BlockDescription \<Rightarrow> (BlockGraph \<times> nat) option"
  EntryThunkTransform :: "string \<Rightarrow> BlockGraph \<Rightarrow> BlockGraph option"
  filter_empty :: "bool \<Rightarrow> bool"
  ShouldIntercept :: "bool \<Rightarrow> Block \<Rightarrow> bool"
  BlockIsSafeToBasicBlockDecompose :: "BlockGraph \<Rightarrow> nat \<Rightarrow> bool"
  PEHotPatchingBasicBlockTransform :: "BBInstr BasicBlock list \<Rightarrow> bool \<times> BBInstr BasicBlock list"
  GET_MNEMONIC_NAME :: "InstructionType \<Rightarrow> string"




text \<open>
  The probes that \<^verbatim>\<open>ImportAsanCheckAccessHooks\<close> asks for: the vector
  \<^verbatim>\<open>access_hook_param_vec\<close>, filled by three loops. The loops over the access size
  double an \<^verbatim>\<open>int\<close> while it is at most 32 (or 4); they are partial functions of
  the starting size, which is 1 in the source.
\<close>

partial_function (option) ImportAsanCheckAccessHooks_read_write ::
  "bool \<Rightarrow> int \<Rightarrow> MemoryAccessInfo list \<Rightarrow> MemoryAccessInfo list option" where
  "ImportAsanCheckAccessHooks_read_write use_liveness access_size vec =
     (if access_size \<le> 32
      then ImportAsanCheckAccessHooks_read_write use_liveness (access_size * 2)
             (vec @
              [\<lparr>info_mode = kReadAccess, info_size = nat access_size,
                info_opcode = I_UNDEFINED, info_save_flags = True\<rparr>] @
              (if use_liveness
               then [\<lparr>info_mode = kReadAccess, info_size = nat access_size,
                      info_opcode = I_UNDEFINED, info_save_flags = False\<rparr>]
               else []) @
              [\<lparr>info_mode = kWriteAccess, info_size = nat access_size,
                info_opcode = I_UNDEFINED, info_save_flags = True\<rparr>] @
              (if use_liveness
               then [\<lparr>info_mode = kWriteAccess, info_size = nat access_size,
                      info_opcode = I_UNDEFINED, info_save_flags = False\<rparr>]
               else []))
      else Some vec)"

definition ImportAsanCheckAccessHooks_10 :: "bool \<Rightarrow> MemoryAccessInfo list \<Rightarrow> MemoryAccessInfo list" where
  "ImportAsanCheckAccessHooks_10 use_liveness vec =
     vec @
     [\<lparr>info_mode = kReadAccess, info_size = 10, info_opcode = I_UNDEFINED,
       info_save_flags = True\<rparr>] @
     (if use_liveness
      then [\<lparr>info_mode = kReadAccess, info_size = 10, info_opcode = I_UNDEFINED,
             info_save_flags = False\<rparr>]
      else []) @
     [\<lparr>info_mode = kWriteAccess, info_size = 10, info_opcode = I_UNDEFINED,
       info_save_flags = True\<rparr>] @
     (if use_liveness
      then [\<lparr>info_mode = kWriteAccess, info_size = 10, info_opcode = I_UNDEFINED,
             info_save_flags = False\<rparr>]
      else [])"

definition strings :: "InstructionType list" where
  "strings = [I_CMPS, I_LODS, I_MOVS, I_STOS]"

function ImportAsanCheckAccessHooks_inst ::
  "int \<Rightarrow> int \<Rightarrow> MemoryAccessInfo list \<Rightarrow> MemoryAccessInfo list" where
  "ImportAsanCheckAccessHooks_inst access_size inst vec =
     (if 0 \<le> inst \<and> inst < int (length strings)
      then ImportAsanCheckAccessHooks_inst access_size (inst + 1)
             (vec @
              [\<lparr>info_mode = kRepzAccess, info_size = nat access_size,
                info_opcode = strings ! nat inst, info_save_flags = True\<rparr>,
               \<lparr>info_mode = kInstrAccess, info_size = nat access_size,
                info_opcode = strings ! nat inst, info_save_flags = True\<rparr>])
      else vec)"
  by pat_completeness auto
termination
  by (relation "measure (\<lambda>(access_size, inst, vec). nat (int (length strings) - inst))") auto

declare ImportAsanCheckAccessHooks_inst.simps [simp del]

partial_function (option) ImportAsanCheckAccessHooks_strings ::
  "int \<Rightarrow> MemoryAccessInfo list \<Rightarrow> MemoryAccessInfo list option" where
  "ImportAsanCheckAccessHooks_strings access_size vec =
     (if access_size \<le> 4
      then ImportAsanCheckAccessHooks_strings (access_size * 2)
             (ImportAsanCheckAccessHooks_inst access_size 0 vec)
      else Some vec)"

definition access_hook_param_vec :: "bool \<Rightarrow> MemoryAccessInfo list option" where
  "access_hook_param_vec use_liveness =
     (case ImportAsanCheckAccessHooks_read_write use_liveness 1 [] of
        None \<Rightarrow> None
      | Some vec \<Rightarrow>
          ImportAsanCheckAccessHooks_strings 1 (ImportAsanCheckAccessHooks_10 use_liveness vec))"





section \<open>The pass\<close>

text \<open>
  The members of \<^verbatim>\<open>AsanTransform\<close> that the model reads. Those it shares with the
  basic-block transform carry the prefix \<open>pass\<close>.
\<close>

record AsanTransform =
  pass_debug_friendly :: bool
  pass_use_liveness_analysis :: bool
  pass_remove_redundant_checks :: bool
  use_interceptors :: bool
  pass_instrumentation_rate :: double
  check_access_hooks_ref :: "MemoryAccessInfo \<Rightarrow> Reference option"
  hot_patching :: bool
  asan_dll_name :: string
  heap_init_blocks :: "nat list"
  static_intercepted_blocks :: "nat set"
  hot_patched_blocks :: "nat list"
  pass_filter :: "Instruction \<Rightarrow> bool"








definition ShouldSkipBlock :: "pass_ext \<Rightarrow> AsanTransform \<Rightarrow> BlockGraph \<Rightarrow> nat \<Rightarrow> bool" where
  "ShouldSkipBlock px t bg block =
     (if block \<in> set (heap_init_blocks t) then True
      else if block \<in> static_intercepted_blocks t then True
      else if \<not> BlockIsSafeToBasicBlockDecompose px bg block then True
      else False)"




text \<open>
  \<^verbatim>\<open>AsanTransform::OnBlock\<close>. The basic-block transform is new for each block: its
  constructor sets \<^verbatim>\<open>dry_run_\<close> and \<^verbatim>\<open>instrumentation_happened_\<close> to false, and
  the setters copy the options of the pass.
\<close>

definition OnBlock_transform ::
  "('la, 'ls, 'ma, 'ms) ext \<Rightarrow> AsanTransform \<Rightarrow> ('la, 'ma) AsanBasicBlockTransform" where
  "OnBlock_transform x t =
     set_instrumentation_rate (pass_instrumentation_rate t)
       \<lparr>check_access_hooks = check_access_hooks_ref t,
        liveness = LivenessAnalysis x,
        memory_accesses = MemoryAccessAnalysis x,
        debug_friendly = pass_debug_friendly t,
        use_liveness_analysis = pass_use_liveness_analysis t,
        remove_redundant_checks = pass_remove_redundant_checks t,
        instrumentation_rate = Finite 1,
        dry_run = False,
        instrumentation_happened = False,
        IsFiltered = pass_filter t\<rparr>"

text \<open>
  The two transforms that \<^verbatim>\<open>OnBlock\<close> hands to
  \<^verbatim>\<open>ApplyBasicBlockSubGraphTransform\<close>, as functions of their state and the
  subgraph. The state is the transform together with the number of draws from the
  random generator.
\<close>

definition AsanBasicBlockTransform_run ::
  "('la, 'ls, 'ma, 'ms) ext \<Rightarrow> ImageFormat \<Rightarrow> ('la, 'ma) AsanBasicBlockTransform \<times> nat
   \<Rightarrow> Instruction BasicBlock list
   \<Rightarrow> error option \<times> (('la, 'ma) AsanBasicBlockTransform \<times> nat) \<times> BBInstr BasicBlock list" where
  "AsanBasicBlockTransform_run x fmt s subgraph =
     (case TransformBasicBlockSubGraph x (fst s) fmt subgraph (snd s) of
        (e, tr, subgraph_out, d) \<Rightarrow> (e, (tr, d), subgraph_out))"

definition HotPatchingAsanBasicBlockTransform_run ::
  "('la, 'ls, 'ma, 'ms) ext \<Rightarrow> pass_ext \<Rightarrow> ImageFormat
   \<Rightarrow> ('la, 'ma) HotPatchingAsanBasicBlockTransform \<times> nat \<Rightarrow> Instruction BasicBlock list
   \<Rightarrow> error option \<times> (('la, 'ma) HotPatchingAsanBasicBlockTransform \<times> nat) \<times>
      BBInstr BasicBlock list" where
  "HotPatchingAsanBasicBlockTransform_run x px fmt s subgraph =
     (case HotPatching_TransformBasicBlockSubGraph x (PEHotPatchingBasicBlockTransform px)
             (fst s) fmt subgraph (snd s) of
        (e, hp, subgraph_out, d) \<Rightarrow> (e, (hp, d), subgraph_out))"

text \<open>
  \<^verbatim>\<open>ApplyBasicBlockSubGraphTransform\<close> belongs to the block-graph library and is not
  among the sources: it is a parameter of \<^verbatim>\<open>OnBlock\<close>, \<open>apply_asan\<close> where it is
  called with the basic-block transform and \<open>apply_hp\<close> where it is called with the
  hot-patching transform. It takes the transform, its state, the graph and the block,
  and returns the error, if any, the state, the graph and the new blocks.
\<close>

definition OnBlock ::
  "('la, 'ls, 'ma, 'ms) ext \<Rightarrow> pass_ext
   \<Rightarrow> ((('la, 'ma) AsanBasicBlockTransform \<times> nat \<Rightarrow> Instruction BasicBlock list
        \<Rightarrow> error option \<times> (('la, 'ma) AsanBasicBlockTransform \<times> nat) \<times>
           BBInstr BasicBlock list)
       \<Rightarrow> ('la, 'ma) AsanBasicBlockTransform \<times> nat \<Rightarrow> BlockGraph \<Rightarrow> nat
       \<Rightarrow> error option \<times> (('la, 'ma) AsanBasicBlockTransform \<times> nat) \<times> BlockGraph \<times>
          nat list)
   \<Rightarrow> ((('la, 'ma) HotPatchingAsanBasicBlockTransform \<times> nat \<Rightarrow> Instruction BasicBlock list
        \<Rightarrow> error option \<times> (('la, 'ma) HotPatchingAsanBasicBlockTransform \<times> nat) \<times>
           BBInstr BasicBlock list)
       \<Rightarrow> ('la, 'ma) HotPatchingAsanBasicBlockTransform \<times> nat \<Rightarrow> BlockGraph \<Rightarrow> nat
       \<Rightarrow> error option \<times> (('la, 'ma) HotPatchingAsanBasicBlockTransform \<times> nat) \<times>
          BlockGraph \<times> nat list)
   \<Rightarrow> AsanTransform \<Rightarrow> BlockGraph \<Rightarrow> nat \<Rightarrow> nat
   \<Rightarrow> error option \<times> AsanTransform \<times> BlockGraph \<times> nat" where
  "OnBlock x px apply_asan apply_hp t bg block draws =
     (if ShouldSkipBlock px t bg block then (None, t, bg, draws)
      else
        (let transform = OnBlock_transform x t
         in if \<not> hot_patching t
            then (case apply_asan (AsanBasicBlockTransform_run x (bg_image_format bg))
                         (transform, draws) bg block of
                    (Some e, s, bg1, new_blocks) \<Rightarrow> (Some e, t, bg1, snd s)
                  | (None, s, bg1, new_blocks) \<Rightarrow> (None, t, bg1, snd s))
            else
              (let hp_asan_bb_transform =
                     \<lparr>asan_bb_transform = transform\<lparr>dry_run := True\<rparr>,
                      prepared_for_hot_patching = False\<rparr>
               in case apply_hp
                         (HotPatchingAsanBasicBlockTransform_run x px (bg_image_format bg))
                         (hp_asan_bb_transform, draws) bg block of
                    (Some e, s, bg1, new_blocks) \<Rightarrow> (Some e, t, bg1, snd s)
                  | (None, s, bg1, new_blocks) \<Rightarrow>
                      if prepared_for_hot_patching (fst s)
                      then (if length new_blocks = 1
                            then (None,
                                  t\<lparr>hot_patched_blocks :=
                                      hot_patched_blocks t @ [hd new_blocks]\<rparr>,
                                  bg1, snd s)
                            else (Some CheckFailure, t, bg1, snd s))
                      else (None, t, bg1, snd s))))"

section \<open>What the specification says, as predicates\<close>

text \<open>
  The accesses that are never to be instrumented: through the segments FS and GS, by
  \<^verbatim>\<open>LEA\<close>, \<^verbatim>\<open>CLFLUSH\<close> and the prefetch instructions, and, when the stack is safe,
  those whose classified operand has the base ESP or EBP.
\<close>

definition excluded_access :: "disassembler_util \<Rightarrow> StackAccessMode \<Rightarrow> Instruction \<Rightarrow> bool" where
  "excluded_access c stack_mode instr =
     (SEGMENT_GET (segment (representation instr)) = R_FS \<or>
      SEGMENT_GET (segment (representation instr)) = R_GS \<or>
      opcode (representation instr) \<in>
        {I_LEA, I_CLFLUSH, I_PREFETCH, I_PREFETCHNTA, I_PREFETCHT0, I_PREFETCHT1,
         I_PREFETCHT2, I_PREFETCHW} \<or>
      (stack_mode = kSafeStackAccess \<and>
       (case DecodeMemoryAccess c instr InstrumentBasicBlock_info of
          None \<Rightarrow> False
        | Some (operand, info) \<Rightarrow>
            operand_base operand = kRegisterEsp \<or> operand_base operand = kRegisterEbp)))"

text \<open>
  The instrumented instructions of a block: the decoded instructions that come
  directly after an inserted one.
\<close>

fun instrumented :: "BBInstr list \<Rightarrow> Instruction list" where
  "instrumented (Inserted a r # Decoded i # rest) = i # instrumented rest"
| "instrumented (b # rest) = instrumented rest"
| "instrumented [] = []"

text \<open>The probe variants of section 4.2 of the specification.\<close>

definition specified_probe_variants :: "bool \<Rightarrow> MemoryAccessInfo set" where
  "specified_probe_variants use_liveness =
     (\<lambda>(m, s, f). \<lparr>info_mode = m, info_size = s, info_opcode = I_UNDEFINED,
                    info_save_flags = f\<rparr>) `
       ({kReadAccess, kWriteAccess} \<times> {1, 2, 4, 8, 16, 32, 10} \<times>
        (if use_liveness then {True, False} else {True})) \<union>
     (\<lambda>(m, s, opc). \<lparr>info_mode = m, info_size = s, info_opcode = opc,
                      info_save_flags = True\<rparr>) `
       ({kRepzAccess, kInstrAccess} \<times> {1, 2, 4} \<times> {I_CMPS, I_LODS, I_MOVS, I_STOS})"

text \<open>
  The probes of one size: for the loads and stores, one that saves the flags for each
  mode and, with \<open>u\<close>, one that does not; for the string instructions, a RepZ and an
  Instr variant for each of the four opcodes.
\<close>

definition read_write_variants :: "nat \<Rightarrow> bool \<Rightarrow> MemoryAccessInfo list" where
  "read_write_variants s u =
     [\<lparr>info_mode = kReadAccess, info_size = s, info_opcode = I_UNDEFINED,
       info_save_flags = True\<rparr>] @
     (if u then [\<lparr>info_mode = kReadAccess, info_size = s, info_opcode = I_UNDEFINED,
                  info_save_flags = False\<rparr>] else []) @
     [\<lparr>info_mode = kWriteAccess, info_size = s, info_opcode = I_UNDEFINED,
       info_save_flags = True\<rparr>] @
     (if u then [\<lparr>info_mode = kWriteAccess, info_size = s, info_opcode = I_UNDEFINED,
                  info_save_flags = False\<rparr>] else [])"

definition string_variants :: "nat \<Rightarrow> MemoryAccessInfo list" where
  "string_variants s =
     [\<lparr>info_mode = kRepzAccess, info_size = s, info_opcode = I_CMPS, info_save_flags = True\<rparr>,
      \<lparr>info_mode = kInstrAccess, info_size = s, info_opcode = I_CMPS, info_save_flags = True\<rparr>,
      \<lparr>info_mode = kRepzAccess, info_size = s, info_opcode = I_LODS, info_save_flags = True\<rparr>,
      \<lparr>info_mode = kInstrAccess, info_size = s, info_opcode = I_LODS, info_save_flags = True\<rparr>,
      \<lparr>info_mode = kRepzAccess, info_size = s, info_opcode = I_MOVS, info_save_flags = True\<rparr>,
      \<lparr>info_mode = kInstrAccess, info_size = s, info_opcode = I_MOVS, info_save_flags = True\<rparr>,
      \<lparr>info_mode = kRepzAccess, info_size = s, info_opcode = I_STOS, info_save_flags = True\<rparr>,
      \<lparr>info_mode = kInstrAccess, info_size = s, info_opcode = I_STOS, info_save_flags = True\<rparr>]"

section \<open>Concrete inputs\<close>

text \<open>
  A register numbering for \<^verbatim>\<open>core::GetRegister\<close> (distorm numbers the 32-bit registers
  from 16), and the instructions of the scenarios of the specification.
\<close>

definition example_core :: disassembler_util where
  "example_core =
     \<lparr>IsNop = (\<lambda>repr. False),
      GetRegister = (\<lambda>r. if r = 16 then kRegisterEax else if r = 17 then kRegisterEcx
                          else if r = 18 then kRegisterEdx else if r = 19 then kRegisterEbx
                          else if r = 20 then kRegisterEsp else if r = 21 then kRegisterEbp
                          else if r = 22 then kRegisterEsi else if r = 23 then kRegisterEdi
                          else if r = 255 then kRegisterNone else kRegisterOther (unat r))\<rparr>"

definition operand_none :: DOperand where
  "operand_none = \<lparr>otype = O_NONE, oindex = 0, osize = 0\<rparr>"

definition operands :: "DOperand \<Rightarrow> DOperand \<Rightarrow> nat \<Rightarrow> DOperand" where
  "operands a b = (\<lambda>i. if i = 0 then a else if i = 1 then b else operand_none)"

text \<open>\<^verbatim>\<open>MOV EAX, [EBX+4]\<close>\<close>

definition example_load :: Instruction where
  "example_load =
     \<lparr>representation =
        \<lparr>opcode = I_OTHER 0,
         ops = operands \<lparr>otype = O_REG, oindex = 16, osize = 32\<rparr>
                        \<lparr>otype = O_SMEM, oindex = 19, osize = 32\<rparr>,
         flags = FLAG_DST_WR, disp = 4, dispSize = 8, scale = 0, base = R_NONE,
         segment = R_NONE\<rparr>,
      FindOperandReference = (\<lambda>k. None), source_range = 1\<rparr>"

text \<open>\<^verbatim>\<open>MOV EAX, FS:[EBX+4]\<close>\<close>

definition example_fs_load :: Instruction where
  "example_fs_load =
     example_load\<lparr>representation := (representation example_load)\<lparr>segment := R_FS\<rparr>\<rparr>"

text \<open>\<^verbatim>\<open>REP MOVS [EDI], [ESI]\<close> on double words\<close>

definition example_rep_movs :: Instruction where
  "example_rep_movs =
     \<lparr>representation =
        \<lparr>opcode = I_MOVS,
         ops = operands \<lparr>otype = O_SMEM, oindex = 23, osize = 32\<rparr>
                        \<lparr>otype = O_SMEM, oindex = 22, osize = 32\<rparr>,
         flags = FLAG_REP OR FLAG_DST_WR, disp = 0, dispSize = 0, scale = 0, base = R_NONE,
         segment = R_NONE\<rparr>,
      FindOperandReference = (\<lambda>k. None), source_range = 2\<rparr>"

text \<open>\<^verbatim>\<open>LEA EAX, [ECX+EDX*4+0x10]\<close>\<close>

definition example_lea :: Instruction where
  "example_lea =
     \<lparr>representation =
        \<lparr>opcode = I_LEA,
         ops = operands \<lparr>otype = O_REG, oindex = 16, osize = 32\<rparr>
                        \<lparr>otype = O_MEM, oindex = 18, osize = 32\<rparr>,
         flags = FLAG_DST_WR, disp = 16, dispSize = 8, scale = 4, base = 17,
         segment = R_NONE\<rparr>,
      FindOperandReference = (\<lambda>k. None), source_range = 3\<rparr>"

text \<open>\<^verbatim>\<open>MOV [EBP-8], EAX\<close>\<close>

definition example_store :: Instruction where
  "example_store =
     \<lparr>representation =
        \<lparr>opcode = I_OTHER 0,
         ops = operands \<lparr>otype = O_SMEM, oindex = 21, osize = 32\<rparr>
                        \<lparr>otype = O_REG, oindex = 16, osize = 32\<rparr>,
         flags = FLAG_DST_WR, disp = - 8, dispSize = 8, scale = 0, base = R_NONE,
         segment = R_NONE\<rparr>,
      FindOperandReference = (\<lambda>k. None), source_range = 4\<rparr>"

text \<open>
  \<^verbatim>\<open>JMP [EAX*4 + table]\<close>, where the displacement refers to the basic block 7, and
  the same operand read one byte wide.
\<close>

definition example_jump_table :: Instruction where
  "example_jump_table =
     \<lparr>representation =
        \<lparr>opcode = I_OTHER 1,
         ops = operands \<lparr>otype = O_MEM, oindex = 16, osize = 32\<rparr> operand_none,
         flags = 0, disp = 0, dispSize = 32, scale = 4, base = R_NONE,
         segment = R_NONE\<rparr>,
      FindOperandReference =
        (\<lambda>k. if k = 0
              then Some \<lparr>referred_type = REFERRED_TYPE_BASIC_BLOCK, referred = 7, offset = 0\<rparr>
              else None),
      source_range = 5\<rparr>"

definition example_jump_table_byte :: Instruction where
  "example_jump_table_byte =
     example_jump_table
       \<lparr>representation := (representation example_jump_table)
          \<lparr>ops := operands \<lparr>otype = O_MEM, oindex = 16, osize = 8\<rparr> operand_none\<rparr>\<rparr>"

text \<open>
  The analyses of the examples: a liveness state says whether the flags are live, the
  flags are dead at the end of each block and no instruction changes that; no access is
  redundant; the stack frame is conventional; every draw of the random generator is
  one half.
\<close>

definition example_ext :: "(unit, bool, unit, unit) ext" where
  "example_ext =
     \<lparr>core = example_core,
      RandDouble = (\<lambda>n. Finite (1 / 2)),
      LivenessAnalysis = (),
      MemoryAccessAnalysis = (),
      liveness_Analyze = (\<lambda>subgraph a. a),
      GetStateAtExitOf = (\<lambda>a bb. False),
      PropagateBackward = (\<lambda>instr s. s),
      AreArithmeticFlagsLive = (\<lambda>s. s),
      liveness_State = True,
      memory_Analyze = (\<lambda>subgraph a. a),
      GetStateAtEntryOf = (\<lambda>a bb. ()),
      HasNonRedundantAccess = (\<lambda>s instr. True),
      PropagateForward = (\<lambda>instr s. s),
      memory_State = (),
      HasUnexpectedStackFrameManipulation = (\<lambda>subgraph. False)\<rparr>"

text \<open>
  A hook map with one import table entry for each probe except those of the mode
  \<^verbatim>\<open>kRepnzAccess\<close>, which the pass does not import: the entries lie in the block 100,
  those of the probes that do not save the flags 4 bytes further.
\<close>

definition example_hooks :: "MemoryAccessInfo \<Rightarrow> Reference option" where
  "example_hooks info =
     (if info_mode info = kRepnzAccess \<or> info_mode info = kNoAccess then None
      else Some \<lparr>rtype = ABSOLUTE_REF, rsize = 4, referenced = 100,
                 roffset = (if info_save_flags info then 0 else 4), rbase = 0\<rparr>)"

definition example_transform :: "(unit, unit) AsanBasicBlockTransform" where
  "example_transform =
     \<lparr>check_access_hooks = example_hooks,
      liveness = (),
      memory_accesses = (),
      debug_friendly = False,
      use_liveness_analysis = True,
      remove_redundant_checks = False,
      instrumentation_rate = Finite 1,
      dry_run = False,
      instrumentation_happened = False,
      IsFiltered = (\<lambda>instr. False)\<rparr>"

text \<open>The same transform without the liveness analysis.\<close>

definition example_plain :: "(unit, unit) AsanBasicBlockTransform" where
  "example_plain = example_transform\<lparr>use_liveness_analysis := False\<rparr>"

definition example_walk :: "(bool, unit) walk" where
  "example_walk =
     \<lparr>walk_instructions = [], iter_state = [False], state = True, memory_state = (),
      rand_draws = 0\<rparr>"

text \<open>Distorm's names of the four string instructions.\<close>

definition example_mnemonic_name :: "InstructionType \<Rightarrow> string" where
  "example_mnemonic_name opc =
     (if opc = I_CMPS then ''CMPS'' else if opc = I_LODS then ''LODS''
      else if opc = I_MOVS then ''MOVS'' else if opc = I_STOS then ''STOS''
      else ''UNDEFINED'')"








section \<open>Properties\<close>

subsection \<open>Displacements\<close>

lemma take_bit_32_64_add:
  "take_bit 32 (take_bit 64 (x::int) + take_bit 64 y) = take_bit 32 (x + y)"
proof -
  have "take_bit 32 (take_bit 64 x + take_bit 64 y) =
        take_bit 32 (take_bit 64 (take_bit 64 x + take_bit 64 y))"
    by simp
  also have "\<dots> = take_bit 32 (take_bit 64 (x + y))"
    by (simp only: take_bit_add)
  finally show ?thesis by simp
qed

lemma ucast_64_32_add: "(ucast ((a::64 word) + b) :: 32 word) = ucast a + ucast b"
  by transfer (simp add: take_bit_32_64_add)

lemma ucast_64_32_minus_1: "(ucast ((a::64 word) - 1) :: 32 word) = ucast a - 1"
  using ucast_64_32_add [of "a - 1" 1] by simp

lemma ucast_32_64_32: "(ucast (ucast (b::32 word) :: 64 word) :: 32 word) = b"
  by transfer simp

lemma displacement_truncated:
  "(ucast ((a::64 word) + ucast (b::32 word) - 1) :: 32 word) = ucast a + (b - 1)"
  by (simp add: ucast_64_32_minus_1 ucast_64_32_add ucast_32_64_32)

lemma ComputeDisplacementForOperand_cases:
  "ComputeDisplacementForOperand instr k =
    (let adjustment = (ucast (osize (ops (representation instr) k) div 8) :: 32 word) - 1
     in if dispSize (representation instr) = 0 then DisplacementValue adjustment
        else case FindOperandReference instr k of
           None \<Rightarrow> DisplacementValue (ucast (disp (representation instr)) + adjustment)
         | Some r \<Rightarrow> if referred_type r = REFERRED_TYPE_BLOCK
                     then DisplacementBlock (referred r) (offset r + adjustment)
                     else DisplacementBasicBlock (referred r))"
  by (simp add: ComputeDisplacementForOperand_def Let_def displacement_truncated
      split: option.splits)

lemma ComputeDisplacementForOperand_size:
  "\<not> displacement_size_is_none (ComputeDisplacementForOperand instr k)"
  by (simp add: ComputeDisplacementForOperand_def Let_def split: option.splits)

lemma DecodeMemoryAccess_operand_Some:
  "DecodeMemoryAccess_mem_op_id (representation instr) = Some k \<Longrightarrow>
   \<exists>access. DecodeMemoryAccess_operand c instr k = Some access"
  by (auto simp: DecodeMemoryAccess_mem_op_id_def DecodeMemoryAccess_operand_def Let_def
      IsInstrumentable_def split: if_splits OperandType.splits)

lemma DecodeMemoryAccess_operand_displacement:
  "DecodeMemoryAccess_operand c instr k = Some access \<Longrightarrow>
   operand_displacement access = ComputeDisplacementForOperand instr k"
  by (auto simp: DecodeMemoryAccess_operand_def Let_def Operand_base_displ_def
      Operand_base_index_scale_displ_def Operand_index_scale_displ_def
      ComputeDisplacementForOperand_size split: if_splits)

lemma ucast_16_32_unat: "(ucast (w::16 word) :: 32 word) = of_nat (unat w)"
  by simp

text \<open>
  Claim C2, as it is stated, asks that the adjustment by the access size minus one is
  added to the offset of the reference for a reference to a basic block too. It is not:
  for the jump through a table, whose displacement refers to the basic block 7 and
  whose operand is four bytes wide, the displacement is the reference to the basic
  block, with the offset 0 and not 3; the same operand read one byte wide has the same
  displacement.
\<close>

theorem basic_block_reference_not_adjusted:
  "FindOperandReference example_jump_table 0 =
     Some \<lparr>referred_type = REFERRED_TYPE_BASIC_BLOCK, referred = 7, offset = 0\<rparr> \<and>
   (ucast (osize (ops (representation example_jump_table) 0) div 8) :: 32 word) - 1 = 3 \<and>
   ComputeDisplacementForOperand example_jump_table 0 = DisplacementBasicBlock 7 \<and>
   displacement_reference_offset (ComputeDisplacementForOperand example_jump_table 0) \<noteq>
     Some (0 + 3) \<and>
   ComputeDisplacementForOperand example_jump_table_byte 0 =
     ComputeDisplacementForOperand example_jump_table 0"
  by (simp add: ComputeDisplacementForOperand_def example_jump_table_def
      example_jump_table_byte_def operands_def Let_def)

text \<open>
  Claim C2, amended. For every instruction that is not a NOP and has a memory operand
  (\<^verbatim>\<open>O_SMEM\<close> or \<^verbatim>\<open>O_MEM\<close>) at index 0 or 1, \<^verbatim>\<open>DecodeMemoryAccess\<close>
  succeeds, and the displacement of the operand it returns, which is the operand of
  the probe's \<^verbatim>\<open>lea\<close>, points at the last byte of the access, where the size is
  the size in bytes that it reports: with no displacement in the instruction it is the
  size minus one; with a displacement that is a plain value it is that value plus the
  size minus one, in 32 bits; with a displacement that refers to a block it is the
  reference to the same block with the offset increased by the size minus one; with a
  displacement that refers to a basic block it is the reference to the same basic
  block, without any adjustment.
\<close>

theorem DecodeMemoryAccess_last_byte:
  assumes "\<not> IsNop c (representation instr)"
    and "IsInstrumentable (ops (representation instr) 0) \<or>
         IsInstrumentable (ops (representation instr) 1)"
  shows "\<exists>access info' k.
     DecodeMemoryAccess c instr info = Some (access, info') \<and>
     k = (if IsInstrumentable (ops (representation instr) 0) then 0 else 1) \<and>
     info_size info' = unat (osize (ops (representation instr) k) div 8) \<and>
     operand_displacement access =
       (if dispSize (representation instr) = 0
        then DisplacementValue (of_nat (info_size info') - 1)
        else case FindOperandReference instr k of
           None \<Rightarrow>
             DisplacementValue
               (ucast (disp (representation instr)) + (of_nat (info_size info') - 1))
         | Some r \<Rightarrow>
             if referred_type r = REFERRED_TYPE_BLOCK
             then DisplacementBlock (referred r) (offset r + (of_nat (info_size info') - 1))
             else DisplacementBasicBlock (referred r))"
proof -
  let ?k = "if IsInstrumentable (ops (representation instr) 0) then 0 else (1::nat)"
  have k: "DecodeMemoryAccess_mem_op_id (representation instr) = Some ?k"
    using assms(2) by (auto simp: DecodeMemoryAccess_mem_op_id_def)
  obtain access where a: "DecodeMemoryAccess_operand c instr ?k = Some access"
    using DecodeMemoryAccess_operand_Some [OF k] by blast
  have d: "operand_displacement access = ComputeDisplacementForOperand instr ?k"
    using a by (rule DecodeMemoryAccess_operand_displacement)
  obtain info' where r: "DecodeMemoryAccess c instr info = Some (access, info')"
    and sz: "info_size info' = unat (osize (ops (representation instr) ?k) div 8)"
    using assms(1) a by (simp add: DecodeMemoryAccess_def k Let_def)
  have adj: "(ucast (osize (ops (representation instr) ?k) div 8) :: 32 word) =
      of_nat (info_size info')"
    by (simp only: sz ucast_16_32_unat)
  have "operand_displacement access =
       (if dispSize (representation instr) = 0
        then DisplacementValue (of_nat (info_size info') - 1)
        else case FindOperandReference instr ?k of
           None \<Rightarrow>
             DisplacementValue
               (ucast (disp (representation instr)) + (of_nat (info_size info') - 1))
         | Some r \<Rightarrow>
             if referred_type r = REFERRED_TYPE_BLOCK
             then DisplacementBlock (referred r) (offset r + (of_nat (info_size info') - 1))
             else DisplacementBasicBlock (referred r))"
    unfolding d ComputeDisplacementForOperand_cases Let_def adj ..
  with r sz show ?thesis
    by blast
qed

lemma example_store_displacement:
  "(ucast (disp (representation example_store)) :: 32 word) + (of_nat 4 - 1) = - 5"
  by (simp add: example_store_def)

text \<open>The store \<^verbatim>\<open>MOV [EBP-8], EAX\<close> is checked at \<^verbatim>\<open>[EBP-5]\<close>.\<close>

theorem DecodeMemoryAccess_last_byte_witness:
  "\<not> IsNop example_core (representation example_store) \<and>
   IsInstrumentable (ops (representation example_store) 0) \<and>
   (\<exists>access info'.
      DecodeMemoryAccess example_core example_store InstrumentBasicBlock_info =
        Some (access, info') \<and>
      info_size info' = 4 \<and> operand_displacement access = DisplacementValue (- 5))"
proof -
  have h1: "\<not> IsNop example_core (representation example_store)"
    by (simp add: example_core_def)
  have h2: "IsInstrumentable (ops (representation example_store) 0)"
    by (simp add: example_store_def operands_def IsInstrumentable_def)
  have h3: "IsInstrumentable (ops (representation example_store) 0) \<or>
            IsInstrumentable (ops (representation example_store) 1)"
    using h2 by simp
  have f: "unat (osize (ops (representation example_store) 0) div 8) = 4"
    "dispSize (representation example_store) \<noteq> 0"
    "FindOperandReference example_store 0 = None"
    by (simp_all add: example_store_def operands_def)
  obtain access info' where
    d: "DecodeMemoryAccess example_core example_store InstrumentBasicBlock_info =
          Some (access, info')"
    and s: "info_size info' = unat (osize (ops (representation example_store) 0) div 8)"
    and o: "operand_displacement access =
       (if dispSize (representation example_store) = 0
        then DisplacementValue (of_nat (info_size info') - 1)
        else case FindOperandReference example_store 0 of
           None \<Rightarrow>
             DisplacementValue
               (ucast (disp (representation example_store)) + (of_nat (info_size info') - 1))
         | Some r \<Rightarrow>
             if referred_type r = REFERRED_TYPE_BLOCK
             then DisplacementBlock (referred r) (offset r + (of_nat (info_size info') - 1))
             else DisplacementBasicBlock (referred r))"
    using DecodeMemoryAccess_last_byte [OF h1 h3, of InstrumentBasicBlock_info] h2 by auto
  have "info_size info' = 4"
    using s f(1) by simp
  moreover from this have "operand_displacement access = DisplacementValue (- 5)"
    using o f(2,3) example_store_displacement by simp
  ultimately show ?thesis
    using h1 h2 d by blast
qed

subsection \<open>The access mode\<close>

lemma IsSpecialInstruction_iff:
  "IsSpecialInstruction opc \<longleftrightarrow> opc \<in> {I_CMPS, I_LODS, I_MOVS, I_STOS}"
  by (cases opc) auto

text \<open>
  Claim C3. For an instruction that is not a NOP and whose operand 0 or 1 is a memory
  operand, \<^verbatim>\<open>DecodeMemoryAccess\<close> succeeds, and the mode it reports follows the rules
  in their order: a REPNZ prefix gives RepNZ; otherwise a REP prefix gives RepZ;
  otherwise one of the opcodes CMPS, LODS, MOVS and STOS gives Instr; otherwise the
  flag of a written destination together with the choice of operand 0 (which is chosen
  exactly when it is a memory operand) gives Write; otherwise Read. The opcode is
  written exactly in the modes Instr, RepZ and RepNZ, and is the caller's value
  otherwise.
\<close>

theorem DecodeMemoryAccess_mode_rules:
  assumes "\<not> IsNop c (representation instr)"
    and "IsInstrumentable (ops (representation instr) 0) \<or>
         IsInstrumentable (ops (representation instr) 1)"
  shows "\<exists>access info'. DecodeMemoryAccess c instr info = Some (access, info') \<and>
     info_mode info' =
       (if FLAG_GET_PREFIX (flags (representation instr)) AND FLAG_REPNZ \<noteq> 0 then kRepnzAccess
        else if FLAG_GET_PREFIX (flags (representation instr)) AND FLAG_REP \<noteq> 0
             then kRepzAccess
        else if opcode (representation instr) \<in> {I_CMPS, I_LODS, I_MOVS, I_STOS}
             then kInstrAccess
        else if flags (representation instr) AND FLAG_DST_WR \<noteq> 0 \<and>
                IsInstrumentable (ops (representation instr) 0) then kWriteAccess
        else kReadAccess) \<and>
     info_opcode info' =
       (if info_mode info' \<in> {kInstrAccess, kRepzAccess, kRepnzAccess}
        then opcode (representation instr) else info_opcode info)"
proof -
  obtain k where k: "DecodeMemoryAccess_mem_op_id (representation instr) = Some k"
    and k0: "k = 0 \<longleftrightarrow> IsInstrumentable (ops (representation instr) 0)"
    using assms(2) by (cases "IsInstrumentable (ops (representation instr) 0)")
      (auto simp: DecodeMemoryAccess_mem_op_id_def)
  obtain access where a: "DecodeMemoryAccess_operand c instr k = Some access"
    using DecodeMemoryAccess_operand_Some [OF k] by blast
  show ?thesis
    using assms(1) k a k0
    by (simp add: DecodeMemoryAccess_def DecodeMemoryAccess_mode_def Let_def
        IsSpecialInstruction_iff)
qed

text \<open>\<^verbatim>\<open>REP MOVS\<close> is a RepZ access with the opcode MOVS.\<close>

theorem DecodeMemoryAccess_mode_rules_witness:
  "\<not> IsNop example_core (representation example_rep_movs) \<and>
   IsInstrumentable (ops (representation example_rep_movs) 0) \<and>
   (\<exists>access info'.
      DecodeMemoryAccess example_core example_rep_movs InstrumentBasicBlock_info =
        Some (access, info') \<and>
      info_mode info' = kRepzAccess \<and> info_opcode info' = I_MOVS)"
proof -
  have h1: "\<not> IsNop example_core (representation example_rep_movs)"
    by (simp add: example_core_def)
  have h2: "IsInstrumentable (ops (representation example_rep_movs) 0)"
    by (simp add: example_rep_movs_def operands_def IsInstrumentable_def)
  have h3: "IsInstrumentable (ops (representation example_rep_movs) 0) \<or>
            IsInstrumentable (ops (representation example_rep_movs) 1)"
    using h2 by simp
  have f: "flags (representation example_rep_movs) = 68"
    "opcode (representation example_rep_movs) = I_MOVS"
    by (simp_all add: example_rep_movs_def FLAG_REP_def FLAG_DST_WR_def)
  show ?thesis
    using h1 h2 DecodeMemoryAccess_mode_rules [OF h1 h3, of InstrumentBasicBlock_info]
    by (auto simp: f FLAG_GET_PREFIX_def FLAG_REPNZ_def FLAG_REP_def)
qed

subsection \<open>The probe call\<close>

lemma InjectAsanHook_asm_before:
  "asm_before (InjectAsanHook bb_asm info op hook image_format) =
     asm_before bb_asm @
     (if info_mode info = kReadAccess \<or> info_mode info = kWriteAccess
      then [Inserted (Asm_push kRegisterEdx) (asm_source_range bb_asm),
            Inserted (Asm_lea kRegisterEdx op) (asm_source_range bb_asm)]
      else []) @
     [Inserted (if image_format = PE_IMAGE
                then Asm_call_operand
                       (Operand_displ (DisplacementBlock (referenced hook) (roffset hook)))
                else Asm_call_immediate (ImmediateBlock (referenced hook) (roffset hook)))
        (asm_source_range bb_asm)]"
  by (simp add: InjectAsanHook_def asm_emit_def Let_def)

lemma select_walk_instructions:
  "InstrumentBasicBlock_select x sm instr t w = (w1, r) \<Longrightarrow>
   walk_instructions w1 = walk_instructions w"
  by (auto simp: InstrumentBasicBlock_select_def Let_def
      split: if_splits option.splits list.splits prod.splits)

lemma select_access:
  "InstrumentBasicBlock_select x sm instr t w = (w1, Some (operand, info)) \<Longrightarrow>
   \<exists>info0. InstrumentBasicBlock_access (core x) t sm instr = Some (operand, info0) \<and>
     info_mode info0 = info_mode info \<and>
     info_save_flags info =
       (if use_liveness_analysis t \<and>
           (info_mode info = kReadAccess \<or> info_mode info = kWriteAccess)
        then AreArithmeticFlagsLive x (state w1) else info_save_flags info0)"
  by (auto simp: InstrumentBasicBlock_select_def Let_def
      split: if_splits option.splits list.splits prod.splits)

lemma access_decode:
  "InstrumentBasicBlock_access c t sm instr = Some (operand, info) \<Longrightarrow>
   DecodeMemoryAccess c instr InstrumentBasicBlock_info = Some (operand, info)"
  by (auto simp: InstrumentBasicBlock_access_def Let_def split: if_splits option.splits)

text \<open>
  Claim C1. When an iteration of \<^verbatim>\<open>InstrumentBasicBlock\<close> has selected an access,
  the run is not dry and the hook of the access is in the map, the instructions
  inserted before the instruction are, for the modes Read and Write, \<^verbatim>\<open>push EDX\<close>,
  then \<^verbatim>\<open>lea EDX, operand\<close>, then the call of the hook, and for every other mode the
  call alone. The operand is the one \<^verbatim>\<open>DecodeMemoryAccess\<close> gave for the
  instruction, and the mode is the one it reported.
\<close>

theorem InjectAsanHook_sequence:
  assumes "InstrumentBasicBlock_select x stack_mode instr t w = (w1, Some (operand, info))"
    and "\<not> dry_run t"
    and "check_access_hooks t info = Some hook"
  shows "\<exists>info0.
     DecodeMemoryAccess (core x) instr InstrumentBasicBlock_info = Some (operand, info0) \<and>
     info_mode info0 = info_mode info \<and>
     InstrumentBasicBlock_iteration x stack_mode image_format instr t w =
       (None, t\<lparr>instrumentation_happened := True\<rparr>,
        w1\<lparr>walk_instructions :=
             walk_instructions w @
             (if info_mode info = kReadAccess \<or> info_mode info = kWriteAccess
              then [Inserted (Asm_push kRegisterEdx)
                      (if debug_friendly t then Some (source_range instr) else None),
                    Inserted (Asm_lea kRegisterEdx operand)
                      (if debug_friendly t then Some (source_range instr) else None)]
              else []) @
             [Inserted (if image_format = PE_IMAGE
                        then Asm_call_operand
                               (Operand_displ
                                  (DisplacementBlock (referenced hook) (roffset hook)))
                        else Asm_call_immediate
                               (ImmediateBlock (referenced hook) (roffset hook)))
                (if debug_friendly t then Some (source_range instr) else None)]\<rparr>)"
proof -
  obtain info0
    where a: "InstrumentBasicBlock_access (core x) t stack_mode instr = Some (operand, info0)"
    and m: "info_mode info0 = info_mode info"
    using select_access [OF assms(1)] by blast
  have d: "DecodeMemoryAccess (core x) instr InstrumentBasicBlock_info = Some (operand, info0)"
    using access_decode [OF a] .
  have w: "walk_instructions w1 = walk_instructions w"
    using select_walk_instructions [OF assms(1)] .
  have "InstrumentBasicBlock_iteration x stack_mode image_format instr t w =
       (None, t\<lparr>instrumentation_happened := True\<rparr>,
        w1\<lparr>walk_instructions :=
             walk_instructions w @
             (if info_mode info = kReadAccess \<or> info_mode info = kWriteAccess
              then [Inserted (Asm_push kRegisterEdx)
                      (if debug_friendly t then Some (source_range instr) else None),
                    Inserted (Asm_lea kRegisterEdx operand)
                      (if debug_friendly t then Some (source_range instr) else None)]
              else []) @
             [Inserted (if image_format = PE_IMAGE
                        then Asm_call_operand
                               (Operand_displ
                                  (DisplacementBlock (referenced hook) (roffset hook)))
                        else Asm_call_immediate
                               (ImmediateBlock (referenced hook) (roffset hook)))
                (if debug_friendly t then Some (source_range instr) else None)]\<rparr>)"
    using assms w
    by (simp add: InstrumentBasicBlock_iteration_def InstrumentBasicBlock_emit_def Let_def
        InjectAsanHook_asm_before set_source_range_def)
  with d m show ?thesis by blast
qed

text \<open>
  The first scenario of the specification: \<^verbatim>\<open>MOV EAX, [EBX+4]\<close> with dead flags is
  preceded by \<^verbatim>\<open>push EDX\<close>, \<^verbatim>\<open>lea EDX, [EBX+7]\<close> and the call of the probe that does
  not save the flags.
\<close>

lemma example_load_decode:
  "DecodeMemoryAccess example_core example_load InstrumentBasicBlock_info =
     Some (Operand_base_displ kRegisterEbx (DisplacementValue 7),
           \<lparr>info_mode = kReadAccess, info_size = 4, info_opcode = I_UNDEFINED,
            info_save_flags = True\<rparr>)"
  by (simp add: DecodeMemoryAccess_def DecodeMemoryAccess_mem_op_id_def
      DecodeMemoryAccess_mode_def DecodeMemoryAccess_operand_def
      ComputeDisplacementForOperand_def IsInstrumentable_def example_load_def
      example_core_def operands_def operand_none_def InstrumentBasicBlock_info_def
      FLAG_GET_PREFIX_def FLAG_REPNZ_def FLAG_REP_def FLAG_DST_WR_def Let_def)

lemma example_load_access:
  "InstrumentBasicBlock_access example_core example_transform kUnsafeStackAccess example_load =
     Some (Operand_base_displ kRegisterEbx (DisplacementValue 7),
           \<lparr>info_mode = kReadAccess, info_size = 4, info_opcode = I_UNDEFINED,
            info_save_flags = True\<rparr>)"
  by (simp only: InstrumentBasicBlock_access_def example_load_decode Let_def option.case
      prod.case)
    (simp add: Operand_base_displ_def example_load_def SEGMENT_GET_def R_NONE_def R_FS_def
      R_GS_def example_transform_def)

lemma example_ext_core: "core example_ext = example_core"
  by (simp add: example_ext_def)

lemma example_load_select:
  "InstrumentBasicBlock_select example_ext kUnsafeStackAccess example_load example_transform
     example_walk =
     (example_walk\<lparr>state := False, iter_state := []\<rparr>,
      Some (Operand_base_displ kRegisterEbx (DisplacementValue 7),
            \<lparr>info_mode = kReadAccess, info_size = 4, info_opcode = I_UNDEFINED,
             info_save_flags = False\<rparr>))"
  by (simp only: InstrumentBasicBlock_select_def example_ext_core example_load_access Let_def
      option.case prod.case)
    (simp add: example_ext_def example_transform_def example_walk_def)

theorem InjectAsanHook_sequence_witness:
  "InstrumentBasicBlock_iteration example_ext kUnsafeStackAccess PE_IMAGE example_load
     example_transform example_walk =
     (None, example_transform\<lparr>instrumentation_happened := True\<rparr>,
      example_walk\<lparr>state := False, iter_state := [],
        walk_instructions :=
          [Inserted (Asm_push kRegisterEdx) None,
           Inserted (Asm_lea kRegisterEdx
                       (Operand_base_displ kRegisterEbx (DisplacementValue 7))) None,
           Inserted (Asm_call_operand (Operand_displ (DisplacementBlock 100 4))) None]\<rparr>)"
proof -
  have h2: "\<not> dry_run example_transform"
    by (simp add: example_transform_def)
  have h3: "check_access_hooks example_transform
              \<lparr>info_mode = kReadAccess, info_size = 4, info_opcode = I_UNDEFINED,
               info_save_flags = False\<rparr> =
            Some \<lparr>rtype = ABSOLUTE_REF, rsize = 4, referenced = 100, roffset = 4, rbase = 0\<rparr>"
    by (simp add: example_transform_def example_hooks_def)
  show ?thesis
    using InjectAsanHook_sequence [OF example_load_select h2 h3, of PE_IMAGE]
    by (elim exE conjE) (simp add: example_transform_def example_walk_def)
qed

subsection \<open>The flags of the special probes\<close>

lemma DecodeMemoryAccess_save_flags:
  "DecodeMemoryAccess c instr info = Some (access, info') \<Longrightarrow>
   info_save_flags info' = info_save_flags info"
  by (auto simp: DecodeMemoryAccess_def Let_def split: if_splits option.splits)

lemma access_save_flags:
  "InstrumentBasicBlock_access c t sm instr = Some (operand, info) \<Longrightarrow> info_save_flags info"
  using DecodeMemoryAccess_save_flags [OF access_decode, of c t sm instr operand info]
  by (simp add: InstrumentBasicBlock_info_def)

text \<open>
  Claim C10. The \<^verbatim>\<open>MemoryAccessInfo\<close> of an iteration starts with \<^verbatim>\<open>save_flags\<close>
  true. Whenever an iteration selects an access, its \<^verbatim>\<open>save_flags\<close> is the liveness
  of the flags if the liveness analysis is in use and the mode is Read or Write, and
  true in every other case; so it is true for the modes Instr, RepZ and RepNZ.
\<close>

theorem special_probes_save_flags:
  assumes "InstrumentBasicBlock_select x stack_mode instr t w = (w1, Some (operand, info))"
  shows "info_save_flags InstrumentBasicBlock_info \<and>
     info_save_flags info =
       (if use_liveness_analysis t \<and>
           (info_mode info = kReadAccess \<or> info_mode info = kWriteAccess)
        then AreArithmeticFlagsLive x (state w1) else True) \<and>
     (info_mode info \<in> {kInstrAccess, kRepzAccess, kRepnzAccess} \<longrightarrow> info_save_flags info)"
proof -
  obtain info0
    where a: "InstrumentBasicBlock_access (core x) t stack_mode instr = Some (operand, info0)"
    and s: "info_save_flags info =
       (if use_liveness_analysis t \<and>
           (info_mode info = kReadAccess \<or> info_mode info = kWriteAccess)
        then AreArithmeticFlagsLive x (state w1) else info_save_flags info0)"
    using select_access [OF assms] by blast
  have "info_save_flags info0"
    using access_save_flags [OF a] .
  with s show ?thesis
    by (auto simp: InstrumentBasicBlock_info_def)
qed

text \<open>
  \<^verbatim>\<open>REP MOVS\<close> with the liveness analysis in use and dead flags: the probe selected
  saves the flags.
\<close>

lemma example_rep_movs_decode:
  "DecodeMemoryAccess example_core example_rep_movs InstrumentBasicBlock_info =
     Some (Operand_base_displ kRegisterEdi (DisplacementValue 3),
           \<lparr>info_mode = kRepzAccess, info_size = 4, info_opcode = I_MOVS,
            info_save_flags = True\<rparr>)"
  by (simp add: DecodeMemoryAccess_def DecodeMemoryAccess_mem_op_id_def
      DecodeMemoryAccess_mode_def DecodeMemoryAccess_operand_def
      ComputeDisplacementForOperand_def IsInstrumentable_def example_rep_movs_def
      example_core_def operands_def operand_none_def InstrumentBasicBlock_info_def
      FLAG_GET_PREFIX_def FLAG_REPNZ_def FLAG_REP_def FLAG_DST_WR_def Let_def)

lemma example_rep_movs_access:
  "InstrumentBasicBlock_access example_core example_transform kUnsafeStackAccess
     example_rep_movs =
     Some (Operand_base_displ kRegisterEdi (DisplacementValue 3),
           \<lparr>info_mode = kRepzAccess, info_size = 4, info_opcode = I_MOVS,
            info_save_flags = True\<rparr>)"
  by (simp only: InstrumentBasicBlock_access_def example_rep_movs_decode Let_def option.case
      prod.case)
    (simp add: Operand_base_displ_def example_rep_movs_def SEGMENT_GET_def R_NONE_def
      R_FS_def R_GS_def example_transform_def)

lemma example_rep_movs_select:
  "InstrumentBasicBlock_select example_ext kUnsafeStackAccess example_rep_movs
     example_transform example_walk =
     (example_walk\<lparr>state := False, iter_state := []\<rparr>,
      Some (Operand_base_displ kRegisterEdi (DisplacementValue 3),
            \<lparr>info_mode = kRepzAccess, info_size = 4, info_opcode = I_MOVS,
             info_save_flags = True\<rparr>))"
  by (simp only: InstrumentBasicBlock_select_def example_ext_core example_rep_movs_access
      Let_def option.case prod.case)
    (simp add: example_ext_def example_transform_def example_walk_def)

theorem special_probes_save_flags_witness:
  "InstrumentBasicBlock_select example_ext kUnsafeStackAccess example_rep_movs
     example_transform example_walk =
     (example_walk\<lparr>state := False, iter_state := []\<rparr>,
      Some (Operand_base_displ kRegisterEdi (DisplacementValue 3),
            \<lparr>info_mode = kRepzAccess, info_size = 4, info_opcode = I_MOVS,
             info_save_flags = True\<rparr>)) \<and>
   use_liveness_analysis example_transform \<and>
   \<not> AreArithmeticFlagsLive example_ext (state (example_walk\<lparr>state := False, iter_state := []\<rparr>)) \<and>
   info_save_flags \<lparr>info_mode = kRepzAccess, info_size = 4, info_opcode = I_MOVS,
                    info_save_flags = True\<rparr>"
  using example_rep_movs_select special_probes_save_flags [OF example_rep_movs_select]
  by (simp add: example_transform_def example_ext_def)

subsection \<open>Probe names\<close>

lemma char_of_digits:
  "char_of (48::nat) = CHR ''0''" "char_of (49::nat) = CHR ''1''" "char_of (50::nat) = CHR ''2''"
  "char_of (51::nat) = CHR ''3''" "char_of (52::nat) = CHR ''4''" "char_of (53::nat) = CHR ''5''"
  "char_of (54::nat) = CHR ''6''" "char_of (55::nat) = CHR ''7''" "char_of (56::nat) = CHR ''8''"
  "char_of (57::nat) = CHR ''9''"
  by code_simp+

lemma ToLowerASCII_digit: "d < 10 \<Longrightarrow> ToLowerASCII_char (digit_char d) = digit_char d"
  by (simp add: ToLowerASCII_char_def digit_char_def)

lemma ToLowerASCII_StringPrintf_d:
  "map ToLowerASCII_char (StringPrintf_d n) = StringPrintf_d n"
proof (induction n rule: StringPrintf_d.induct)
  case (1 n)
  show ?case
  proof (cases "n < 10")
    case True
    then show ?thesis
      by (subst (1 2) StringPrintf_d.simps) (simp add: ToLowerASCII_digit)
  next
    case False
    then have "map ToLowerASCII_char (StringPrintf_d (n div 10)) = StringPrintf_d (n div 10)"
      using 1 by simp
    with False show ?thesis
      by (subst (1 2) StringPrintf_d.simps) (simp add: ToLowerASCII_digit)
  qed
qed

lemma ToLowerASCII_lower:
  "ToLowerASCII_char CHR ''_'' = CHR ''_''"
  "ToLowerASCII_char CHR ''a'' = CHR ''a''"
  "ToLowerASCII_char CHR ''b'' = CHR ''b''"
  "ToLowerASCII_char CHR ''c'' = CHR ''c''"
  "ToLowerASCII_char CHR ''d'' = CHR ''d''"
  "ToLowerASCII_char CHR ''e'' = CHR ''e''"
  "ToLowerASCII_char CHR ''f'' = CHR ''f''"
  "ToLowerASCII_char CHR ''g'' = CHR ''g''"
  "ToLowerASCII_char CHR ''h'' = CHR ''h''"
  "ToLowerASCII_char CHR ''i'' = CHR ''i''"
  "ToLowerASCII_char CHR ''k'' = CHR ''k''"
  "ToLowerASCII_char CHR ''l'' = CHR ''l''"
  "ToLowerASCII_char CHR ''n'' = CHR ''n''"
  "ToLowerASCII_char CHR ''o'' = CHR ''o''"
  "ToLowerASCII_char CHR ''p'' = CHR ''p''"
  "ToLowerASCII_char CHR ''r'' = CHR ''r''"
  "ToLowerASCII_char CHR ''s'' = CHR ''s''"
  "ToLowerASCII_char CHR ''t'' = CHR ''t''"
  "ToLowerASCII_char CHR ''w'' = CHR ''w''"
  "ToLowerASCII_char CHR ''y'' = CHR ''y''"
  "ToLowerASCII_char CHR ''z'' = CHR ''z''"
  by (simp_all add: ToLowerASCII_char_def)

text \<open>
  Claim C5. For every \<^verbatim>\<open>MemoryAccessInfo\<close> whose mode is not \<^verbatim>\<open>kNoAccess\<close> and
  every image format, the name of the probe is the prefix (empty for a PE image, an
  underscore otherwise, so for a COFF image), \<^verbatim>\<open>asan_check\<close>, the repetition
  (\<^verbatim>\<open>_repz\<close> for RepZ, \<^verbatim>\<open>_repnz\<close> for RepNZ, empty otherwise), an underscore, the
  size in decimal, \<^verbatim>\<open>_byte_\<close>, the operation (\<^verbatim>\<open>read\<close> for Read, \<^verbatim>\<open>write\<close> for
  Write, the mnemonic in lower case for Instr, RepZ and RepNZ), \<^verbatim>\<open>_access\<close>, and
  \<^verbatim>\<open>_no_flags\<close> when \<^verbatim>\<open>save_flags\<close> is false.
\<close>

theorem GetAsanCheckAccessFunctionName_format:
  assumes "info_mode info \<noteq> kNoAccess"
  shows "GetAsanCheckAccessFunctionName mnemonic_name info image_format =
     (if image_format = PE_IMAGE then [] else ''_'') @ ''asan_check'' @
     (if info_mode info = kRepzAccess then ''_repz''
      else if info_mode info = kRepnzAccess then ''_repnz'' else []) @
     ''_'' @ StringPrintf_d (info_size info) @ ''_byte_'' @
     (if info_mode info = kReadAccess then ''read''
      else if info_mode info = kWriteAccess then ''write''
      else ToLowerASCII (mnemonic_name (info_opcode info))) @
     ''_access'' @ (if info_save_flags info then [] else ''_no_flags'')"
  by (simp add: GetAsanCheckAccessFunctionName_def Let_def ToLowerASCII_def
      ToLowerASCII_StringPrintf_d ToLowerASCII_lower)

lemma StringPrintf_d_examples:
  "StringPrintf_d 4 = ''4''" "StringPrintf_d 10 = ''10''" "StringPrintf_d 32 = ''32''"
  by (simp_all add: StringPrintf_d.simps digit_char_def char_of_digits)

lemma ToLowerASCII_MOVS: "ToLowerASCII ''MOVS'' = ''movs''"
  by code_simp

text \<open>The name of the probe of \<^verbatim>\<open>REP MOVS\<close> on double words in a COFF image.\<close>

theorem GetAsanCheckAccessFunctionName_format_witness:
  "info_mode \<lparr>info_mode = kRepzAccess, info_size = 4, info_opcode = I_MOVS,
              info_save_flags = True\<rparr> \<noteq> kNoAccess \<and>
   GetAsanCheckAccessFunctionName example_mnemonic_name
     \<lparr>info_mode = kRepzAccess, info_size = 4, info_opcode = I_MOVS, info_save_flags = True\<rparr>
     COFF_IMAGE = ''_asan_check_repz_4_byte_movs_access''"
  using GetAsanCheckAccessFunctionName_format
    [of "\<lparr>info_mode = kRepzAccess, info_size = 4, info_opcode = I_MOVS,
          info_save_flags = True\<rparr>" example_mnemonic_name COFF_IMAGE]
  by (simp add: StringPrintf_d_examples example_mnemonic_name_def ToLowerASCII_MOVS)

subsection \<open>The instrumentation rate\<close>

lemma std_clamp:
  "\<exists>r. std_max (Finite 0) (std_min (Finite 1) rate) = Finite r \<and> 0 \<le> r \<and> r \<le> 1"
  by (cases rate) (auto simp: std_max_def std_min_def)

lemma std_clamp_value:
  "std_max (Finite 0) (std_min (Finite 1) rate) =
     (case rate of
        NaN \<Rightarrow> Finite 1
      | MinusInfinity \<Rightarrow> Finite 0
      | Finite r \<Rightarrow> Finite (max 0 (min 1 r))
      | PlusInfinity \<Rightarrow> Finite 1)"
  by (cases rate) (auto simp: std_max_def std_min_def)

text \<open>
  Claim C8. \<^verbatim>\<open>set_instrumentation_rate\<close> stores the rate clamped to the interval
  from 0 to 1 and changes nothing else: a number below 0 is stored as 0, a number above
  1 as 1, a number between them as it is, minus infinity as 0, plus infinity and a NaN
  as 1; so the stored rate is a number between 0 and 1, whatever double is given. When
  the stored rate is 0, \<^verbatim>\<open>InstrumentBasicBlock\<close> returns success at once: whatever
  the instructions of the block and the analyses are, the transform, the instructions
  and the random generator are as before.
\<close>

theorem instrumentation_rate_clamped:
  "set_instrumentation_rate rate t =
     t\<lparr>instrumentation_rate :=
         (case rate of
            NaN \<Rightarrow> Finite 1
          | MinusInfinity \<Rightarrow> Finite 0
          | Finite r \<Rightarrow> Finite (max 0 (min 1 r))
          | PlusInfinity \<Rightarrow> Finite 1)\<rparr> \<and>
   (\<exists>r. instrumentation_rate (set_instrumentation_rate rate t) = Finite r \<and> 0 \<le> r \<and> r \<le> 1) \<and>
   (double_eq (instrumentation_rate t) (Finite 0) \<longrightarrow>
      InstrumentBasicBlock x t bb instrs stack_mode image_format draws =
        (None, t, map Decoded instrs, draws))"
  using std_clamp [of rate]
  by (simp add: set_instrumentation_rate_def InstrumentBasicBlock_def std_clamp_value)

text \<open>
  The rate -3 is stored as 0 and the rate 1/4 as it is; at the rate 0 the block with
  the load is left alone.
\<close>

theorem instrumentation_rate_clamped_witness:
  "set_instrumentation_rate (Finite (- 3)) example_transform =
     example_transform\<lparr>instrumentation_rate := Finite 0\<rparr> \<and>
   set_instrumentation_rate (Finite (1 / 4)) example_transform =
     example_transform\<lparr>instrumentation_rate := Finite (1 / 4)\<rparr> \<and>
   double_eq (instrumentation_rate (example_transform\<lparr>instrumentation_rate := Finite 0\<rparr>))
     (Finite 0) \<and>
   InstrumentBasicBlock example_ext (example_transform\<lparr>instrumentation_rate := Finite 0\<rparr>)
     0 [example_load] kUnsafeStackAccess PE_IMAGE 0 =
     (None, example_transform\<lparr>instrumentation_rate := Finite 0\<rparr>,
      [Decoded example_load], 0)"
proof -
  have a: "set_instrumentation_rate (Finite (- 3)) example_transform =
      example_transform\<lparr>instrumentation_rate := Finite 0\<rparr>"
    using instrumentation_rate_clamped
      [where t = example_transform and rate = "Finite (- 3)", THEN conjunct1]
    by simp
  have b: "set_instrumentation_rate (Finite (1 / 4)) example_transform =
      example_transform\<lparr>instrumentation_rate := Finite (1 / 4)\<rparr>"
    using instrumentation_rate_clamped
      [where t = example_transform and rate = "Finite (1 / 4)", THEN conjunct1]
    by simp
  have c: "double_eq (instrumentation_rate
      (example_transform\<lparr>instrumentation_rate := Finite 0\<rparr>)) (Finite 0)"
    by simp
  show ?thesis
    using a b c instrumentation_rate_clamped
      [where t = "example_transform\<lparr>instrumentation_rate := Finite 0\<rparr>"
        and x = example_ext and bb = 0 and instrs = "[example_load]"
        and stack_mode = kUnsafeStackAccess and image_format = PE_IMAGE and draws = 0,
        THEN conjunct2, THEN conjunct2]
    by simp
qed

subsection \<open>The probes that are imported\<close>

lemma inst_loop:
  "ImportAsanCheckAccessHooks_inst s 0 vec = vec @ string_variants (nat s)"
  by (simp add: ImportAsanCheckAccessHooks_inst.simps strings_def string_variants_def)

lemma read_write_loop:
  "ImportAsanCheckAccessHooks_read_write u 1 [] =
     Some (read_write_variants 1 u @ read_write_variants 2 u @ read_write_variants 4 u @
           read_write_variants 8 u @ read_write_variants 16 u @ read_write_variants 32 u)"
  by (simp add: ImportAsanCheckAccessHooks_read_write.simps read_write_variants_def)

lemma strings_loop:
  "ImportAsanCheckAccessHooks_strings 1 vec =
     Some (vec @ string_variants 1 @ string_variants 2 @ string_variants 4)"
  by (simp add: ImportAsanCheckAccessHooks_strings.simps inst_loop)

lemma access_hook_param_vec_eq:
  "access_hook_param_vec u =
     Some (read_write_variants 1 u @ read_write_variants 2 u @ read_write_variants 4 u @
           read_write_variants 8 u @ read_write_variants 16 u @ read_write_variants 32 u @
           read_write_variants 10 u @
           string_variants 1 @ string_variants 2 @ string_variants 4)"
  by (simp add: access_hook_param_vec_def read_write_loop strings_loop
      ImportAsanCheckAccessHooks_10_def read_write_variants_def)

lemma in_read_write_variants:
  "i \<in> set (read_write_variants s u) \<longleftrightarrow>
     (info_mode i = kReadAccess \<or> info_mode i = kWriteAccess) \<and> info_size i = s \<and>
     info_opcode i = I_UNDEFINED \<and> (info_save_flags i \<or> u)"
  by (cases i) (auto simp: read_write_variants_def)

lemma in_string_variants:
  "i \<in> set (string_variants s) \<longleftrightarrow>
     (info_mode i = kRepzAccess \<or> info_mode i = kInstrAccess) \<and> info_size i = s \<and>
     (info_opcode i = I_CMPS \<or> info_opcode i = I_LODS \<or> info_opcode i = I_MOVS \<or>
      info_opcode i = I_STOS) \<and> info_save_flags i"
  by (cases i) (auto simp: string_variants_def)

lemma in_read_write_image:
  "i \<in> (\<lambda>(m, s, f). \<lparr>info_mode = m, info_size = s, info_opcode = I_UNDEFINED,
                        info_save_flags = f\<rparr>) ` (M \<times> S \<times> F) \<longleftrightarrow>
   info_mode i \<in> M \<and> info_size i \<in> S \<and> info_opcode i = I_UNDEFINED \<and>
   info_save_flags i \<in> F"
  by (cases i) (auto simp: image_iff)

lemma in_string_image:
  "i \<in> (\<lambda>(m, s, opc). \<lparr>info_mode = m, info_size = s, info_opcode = opc,
                          info_save_flags = True\<rparr>) ` (M \<times> S \<times> P) \<longleftrightarrow>
   info_mode i \<in> M \<and> info_size i \<in> S \<and> info_opcode i \<in> P \<and> info_save_flags i"
  by (cases i) (auto simp: image_iff)

lemma in_specified_probe_variants:
  "i \<in> specified_probe_variants u \<longleftrightarrow>
     (info_mode i = kReadAccess \<or> info_mode i = kWriteAccess) \<and>
     (info_size i = 1 \<or> info_size i = 2 \<or> info_size i = 4 \<or> info_size i = 8 \<or>
      info_size i = 16 \<or> info_size i = 32 \<or> info_size i = 10) \<and>
     info_opcode i = I_UNDEFINED \<and> (info_save_flags i \<or> u) \<or>
     (info_mode i = kRepzAccess \<or> info_mode i = kInstrAccess) \<and>
     (info_size i = 1 \<or> info_size i = 2 \<or> info_size i = 4) \<and>
     (info_opcode i = I_CMPS \<or> info_opcode i = I_LODS \<or> info_opcode i = I_MOVS \<or>
      info_opcode i = I_STOS) \<and> info_save_flags i"
  unfolding specified_probe_variants_def Un_iff in_read_write_image in_string_image
  by (cases u) simp_all

lemma distinct_read_write_variants: "distinct (read_write_variants s u)"
  by (simp add: read_write_variants_def)

lemma distinct_string_variants: "distinct (string_variants s)"
  by (simp add: string_variants_def)

lemma disjoint_read_write_variants:
  "s \<noteq> s' \<Longrightarrow> set (read_write_variants s u) \<inter> set (read_write_variants s' u) = {}"
  by (auto simp: in_read_write_variants)

lemma disjoint_string_variants:
  "s \<noteq> s' \<Longrightarrow> set (string_variants s) \<inter> set (string_variants s') = {}"
  by (auto simp: in_string_variants)

lemma disjoint_read_write_string_variants:
  "set (read_write_variants s u) \<inter> set (string_variants s') = {}"
  by (auto simp: in_read_write_variants in_string_variants)

lemma disj7_conj:
  "(A \<and> s1 \<and> B) \<or> (A \<and> s2 \<and> B) \<or> (A \<and> s3 \<and> B) \<or> (A \<and> s4 \<and> B) \<or> (A \<and> s5 \<and> B) \<or>
   (A \<and> s6 \<and> B) \<or> (A \<and> s7 \<and> B) \<longleftrightarrow>
   A \<and> (s1 \<or> s2 \<or> s3 \<or> s4 \<or> s5 \<or> s6 \<or> s7) \<and> B"
  by blast

lemma disj3_conj:
  "(A \<and> s1 \<and> B) \<or> (A \<and> s2 \<and> B) \<or> (A \<and> s3 \<and> B) \<longleftrightarrow> A \<and> (s1 \<or> s2 \<or> s3) \<and> B"
  by blast

lemma in_read_write_part:
  "i \<in> set (read_write_variants 1 u @ read_write_variants 2 u @ read_write_variants 4 u @
             read_write_variants 8 u @ read_write_variants 16 u @ read_write_variants 32 u @
             read_write_variants 10 u) \<longleftrightarrow>
     (info_mode i = kReadAccess \<or> info_mode i = kWriteAccess) \<and>
     (info_size i = 1 \<or> info_size i = 2 \<or> info_size i = 4 \<or> info_size i = 8 \<or>
      info_size i = 16 \<or> info_size i = 32 \<or> info_size i = 10) \<and>
     info_opcode i = I_UNDEFINED \<and> (info_save_flags i \<or> u)"
  unfolding set_append Un_iff in_read_write_variants disj_assoc
  by (rule disj7_conj)

lemma in_string_part:
  "i \<in> set (string_variants 1 @ string_variants 2 @ string_variants 4) \<longleftrightarrow>
     (info_mode i = kRepzAccess \<or> info_mode i = kInstrAccess) \<and>
     (info_size i = 1 \<or> info_size i = 2 \<or> info_size i = 4) \<and>
     (info_opcode i = I_CMPS \<or> info_opcode i = I_LODS \<or> info_opcode i = I_MOVS \<or>
      info_opcode i = I_STOS) \<and> info_save_flags i"
  unfolding set_append Un_iff in_string_variants disj_assoc
  by (rule disj3_conj)

lemma set_access_hook_param_vec:
  "set ((read_write_variants 1 u @ read_write_variants 2 u @ read_write_variants 4 u @
         read_write_variants 8 u @ read_write_variants 16 u @ read_write_variants 32 u @
         read_write_variants 10 u) @
        string_variants 1 @ string_variants 2 @ string_variants 4) =
   specified_probe_variants u"
proof (rule set_eqI)
  fix i
  show "i \<in> set ((read_write_variants 1 u @ read_write_variants 2 u @
                    read_write_variants 4 u @ read_write_variants 8 u @
                    read_write_variants 16 u @ read_write_variants 32 u @
                    read_write_variants 10 u) @
                   string_variants 1 @ string_variants 2 @ string_variants 4) \<longleftrightarrow>
        i \<in> specified_probe_variants u"
    by (subst set_append, subst Un_iff, subst in_read_write_part, subst in_string_part,
        subst in_specified_probe_variants, rule refl)
qed

lemma distinct_access_hook_param_vec:
  "distinct ((read_write_variants 1 u @ read_write_variants 2 u @ read_write_variants 4 u @
         read_write_variants 8 u @ read_write_variants 16 u @ read_write_variants 32 u @
         read_write_variants 10 u) @
        string_variants 1 @ string_variants 2 @ string_variants 4)"
  by (simp add: distinct_read_write_variants distinct_string_variants
      disjoint_read_write_variants disjoint_string_variants
      disjoint_read_write_string_variants Int_Un_distrib Int_Un_distrib2)

text \<open>
  Claim C6. The vector of probes that \<^verbatim>\<open>ImportAsanCheckAccessHooks\<close> builds holds,
  each once, exactly the variants of the specification: for each of the sizes 1, 2, 4,
  8, 16, 32 and 10 a Read and a Write variant that save the flags and, with the
  liveness analysis, a second of each that does not; and for each of the sizes 1, 2
  and 4 and each of the opcodes CMPS, LODS, MOVS and STOS a RepZ and an Instr variant
  that save the flags.
\<close>

theorem access_hook_param_vec_variants:
  "\<exists>vec. access_hook_param_vec use_liveness = Some vec \<and>
     set vec = specified_probe_variants use_liveness \<and> distinct vec"
  using set_access_hook_param_vec [of use_liveness]
    distinct_access_hook_param_vec [of use_liveness]
  by (simp add: access_hook_param_vec_eq)

subsection \<open>An image that is already instrumented\<close>




lemma FindSection_sections:
  "bg_sections g = bg_sections g' \<Longrightarrow> FindSection g name = FindSection g' name"
  by (simp add: FindSection_def)




























subsection \<open>The accesses that are not instrumented\<close>

lemma ShouldInstrumentOpcode_iff:
  "ShouldInstrumentOpcode opc \<longleftrightarrow>
   opc \<notin> {I_LEA, I_CLFLUSH, I_PREFETCH, I_PREFETCHNTA, I_PREFETCHT0, I_PREFETCHT1,
           I_PREFETCHT2, I_PREFETCHW}"
  by (cases opc) auto

lemma access_not_excluded:
  assumes "InstrumentBasicBlock_access c t sm instr = Some (operand, info)"
  shows "\<not> excluded_access c sm instr"
  using assms
  by (auto simp: InstrumentBasicBlock_access_def excluded_access_def Let_def
      ShouldInstrumentOpcode_iff split: option.splits if_splits)

lemma select_not_excluded:
  "InstrumentBasicBlock_select x sm instr t w = (w1, Some (operand, info)) \<Longrightarrow>
   \<not> excluded_access (core x) sm instr"
  using select_access access_not_excluded by blast

lemma emit_result:
  assumes "InstrumentBasicBlock_emit fmt instr operand info t w = (e, t1, w1)"
  shows "\<exists>ins. walk_instructions w1 = walk_instructions w @ ins \<and>
           (\<forall>i. Decoded i \<notin> set ins)"
  using assms
  by (auto simp: InstrumentBasicBlock_emit_def Let_def InjectAsanHook_asm_before
      set_source_range_def split: if_splits option.splits)

lemma iteration_result:
  assumes "InstrumentBasicBlock_iteration x sm fmt instr t w = (e, t1, w1)"
  shows "\<exists>ins. walk_instructions w1 = walk_instructions w @ ins \<and>
           (\<forall>i. Decoded i \<notin> set ins) \<and>
           (ins \<noteq> [] \<longrightarrow> \<not> excluded_access (core x) sm instr) \<and>
           (instrumentation_happened t1 \<longrightarrow>
              instrumentation_happened t \<or> \<not> excluded_access (core x) sm instr)"
proof (cases "InstrumentBasicBlock_select x sm instr t w")
  case (Pair w0 r)
  have w0: "walk_instructions w0 = walk_instructions w"
    using select_walk_instructions [OF Pair] .
  show ?thesis
  proof (cases r)
    case None
    with Pair assms w0 show ?thesis
      by (auto simp: InstrumentBasicBlock_iteration_def)
  next
    case (Some a)
    obtain operand info where a: "a = (operand, info)"
      by (cases a)
    have ne: "\<not> excluded_access (core x) sm instr"
      using select_not_excluded Pair Some a by blast
    have "InstrumentBasicBlock_emit fmt instr operand info t w0 = (e, t1, w1)"
      using assms Pair Some a by (simp add: InstrumentBasicBlock_iteration_def)
    from emit_result [OF this] w0 ne show ?thesis
      by auto
  qed
qed

lemma instrumented_Decoded: "instrumented (Decoded i # rest) = instrumented rest"
  by simp

lemma instrumented_map_Decoded: "instrumented (map Decoded xs) = []"
  by (induction xs) simp_all

lemma instrumented_inserted:
  "(\<forall>i. Decoded i \<notin> set ins) \<Longrightarrow>
   set (instrumented (ins @ Decoded i # rest)) \<subseteq>
     (if ins = [] then {} else {i}) \<union> set (instrumented rest)"
proof (induction ins)
  case Nil
  then show ?case by simp
next
  case (Cons b ins)
  obtain a r where b: "b = Inserted a r"
    using Cons.prems by (cases b) auto
  show ?case
  proof (cases ins)
    case Nil
    with b show ?thesis by simp
  next
    case (Cons b' ins')
    obtain a' r' where b': "b' = Inserted a' r'"
      using Cons.prems Cons by (cases b') auto
    have "instrumented (b # ins @ Decoded i # rest) = instrumented (ins @ Decoded i # rest)"
      using b b' Cons by simp
    moreover have "set (instrumented (ins @ Decoded i # rest)) \<subseteq>
       (if ins = [] then {} else {i}) \<union> set (instrumented rest)"
      using Cons.IH Cons.prems by simp
    ultimately show ?thesis
      using Cons by auto
  qed
qed

lemma loop_result:
  "InstrumentBasicBlock_loop x sm fmt instrs t w = (e, t1, w1) \<Longrightarrow>
   \<exists>tail. walk_instructions w1 = walk_instructions w @ tail \<and>
     (\<forall>i\<in>set (instrumented tail). \<not> excluded_access (core x) sm i) \<and>
     (instrumentation_happened t1 \<longrightarrow>
        instrumentation_happened t \<or> (\<exists>i\<in>set instrs. \<not> excluded_access (core x) sm i))"
proof (induction instrs arbitrary: t w)
  case Nil
  then show ?case by simp
next
  case (Cons instr rest)
  obtain e0 t0 w0 where it: "InstrumentBasicBlock_iteration x sm fmt instr t w = (e0, t0, w0)"
    by (cases "InstrumentBasicBlock_iteration x sm fmt instr t w") auto
  obtain ins where ins: "walk_instructions w0 = walk_instructions w @ ins"
    and dec: "\<forall>i. Decoded i \<notin> set ins"
    and ne: "ins \<noteq> [] \<longrightarrow> \<not> excluded_access (core x) sm instr"
    and hp: "instrumentation_happened t0 \<longrightarrow>
              instrumentation_happened t \<or> \<not> excluded_access (core x) sm instr"
    using iteration_result [OF it] by blast
  show ?case
  proof (cases e0)
    case (Some err)
    then have r: "e = Some err" "t1 = t0"
      "w1 = w0\<lparr>walk_instructions := walk_instructions w0 @ map Decoded (instr # rest)\<rparr>"
      using Cons.prems it by auto
    have sub: "set (instrumented (ins @ Decoded instr # map Decoded rest)) \<subseteq>
         (if ins = [] then {} else {instr}) \<union> set (instrumented (map Decoded rest))"
      using instrumented_inserted [OF dec] .
    have "walk_instructions w1 = walk_instructions w @ (ins @ Decoded instr # map Decoded rest)"
      using r ins by simp
    moreover have "\<forall>i\<in>set (instrumented (ins @ Decoded instr # map Decoded rest)).
        \<not> excluded_access (core x) sm i"
      using sub ne by (auto simp: instrumented_map_Decoded split: if_splits)
    moreover have "instrumentation_happened t1 \<longrightarrow>
        instrumentation_happened t \<or>
        (\<exists>i\<in>set (instr # rest). \<not> excluded_access (core x) sm i)"
      using hp r by auto
    ultimately show ?thesis by blast
  next
    case None
    then have r: "InstrumentBasicBlock_loop x sm fmt rest t0
         (w0\<lparr>walk_instructions := walk_instructions w0 @ [Decoded instr]\<rparr>) = (e, t1, w1)"
      using Cons.prems it by simp
    obtain tail where tail: "walk_instructions w1 =
        walk_instructions (w0\<lparr>walk_instructions := walk_instructions w0 @ [Decoded instr]\<rparr>) @ tail"
      and t_ne: "\<forall>i\<in>set (instrumented tail). \<not> excluded_access (core x) sm i"
      and t_hp: "instrumentation_happened t1 \<longrightarrow>
        instrumentation_happened t0 \<or> (\<exists>i\<in>set rest. \<not> excluded_access (core x) sm i)"
      using Cons.IH [OF r] by blast
    have sub: "set (instrumented (ins @ Decoded instr # tail)) \<subseteq>
         (if ins = [] then {} else {instr}) \<union> set (instrumented tail)"
      using instrumented_inserted [OF dec] .
    have "walk_instructions w1 = walk_instructions w @ (ins @ Decoded instr # tail)"
      using tail ins by simp
    moreover have "\<forall>i\<in>set (instrumented (ins @ Decoded instr # tail)).
        \<not> excluded_access (core x) sm i"
      using sub ne t_ne by (auto split: if_splits)
    moreover have "instrumentation_happened t1 \<longrightarrow>
        instrumentation_happened t \<or>
        (\<exists>i\<in>set (instr # rest). \<not> excluded_access (core x) sm i)"
      using hp t_hp by auto
    ultimately show ?thesis by blast
  qed
qed

lemma InstrumentBasicBlock_loop_form:
  assumes "\<not> double_eq (instrumentation_rate t) (Finite 0)"
    and "InstrumentBasicBlock x t bb instrs stack_mode image_format draws =
           (e, t1, out, draws1)"
  shows "\<exists>s states ms w1.
           InstrumentBasicBlock_loop x stack_mode image_format instrs t
             \<lparr>walk_instructions = [], iter_state = states, state = s, memory_state = ms,
              rand_draws = draws\<rparr> = (e, t1, w1) \<and>
           out = walk_instructions w1"
proof -
  let ?p = "if use_liveness_analysis t
            then InstrumentBasicBlock_states x (rev instrs)
                   (GetStateAtExitOf x (liveness t) bb) []
            else (liveness_State x, [])"
  let ?ms = "if remove_redundant_checks t
             then GetStateAtEntryOf x (memory_accesses t) bb else memory_State x"
  obtain s states where p: "?p = (s, states)"
    by (cases ?p)
  let ?w = "\<lparr>walk_instructions = [], iter_state = states, state = s, memory_state = ?ms,
             rand_draws = draws\<rparr>"
  obtain e0 t0 w0
    where l: "InstrumentBasicBlock_loop x stack_mode image_format instrs t ?w = (e0, t0, w0)"
    by (cases "InstrumentBasicBlock_loop x stack_mode image_format instrs t ?w")
  have "InstrumentBasicBlock x t bb instrs stack_mode image_format draws =
          (e0, t0, walk_instructions w0, rand_draws w0)"
    unfolding InstrumentBasicBlock_def Let_def p
    using assms(1) l by simp
  with assms(2) have "e0 = e" "t0 = t1" "out = walk_instructions w0"
    by simp_all
  with l show ?thesis
    by blast
qed

text \<open>
  Claim C4. In the block that \<^verbatim>\<open>InstrumentBasicBlock\<close> returns, no instruction that
  comes directly after an inserted one, that is no instrumented instruction, is an
  access through FS or GS, a \<^verbatim>\<open>LEA\<close>, a \<^verbatim>\<open>CLFLUSH\<close> or a prefetch, or, when the
  stack is safe, an access whose base is ESP or EBP. Nor do such instructions alone
  set the mark that an instrumentation happened, which is all a dry run records.
\<close>

theorem InstrumentBasicBlock_exclusions:
  assumes "InstrumentBasicBlock x t bb instrs stack_mode image_format draws =
             (e, t1, out, draws1)"
  shows "(\<forall>i\<in>set (instrumented out). \<not> excluded_access (core x) stack_mode i) \<and>
     (instrumentation_happened t1 \<longrightarrow>
        instrumentation_happened t \<or>
        (\<exists>i\<in>set instrs. \<not> excluded_access (core x) stack_mode i))"
proof (cases "double_eq (instrumentation_rate t) (Finite 0)")
  case True
  with assms show ?thesis
    by (auto simp: InstrumentBasicBlock_def instrumented_map_Decoded)
next
  case False
  obtain s states ms w1
    where l: "InstrumentBasicBlock_loop x stack_mode image_format instrs t
                \<lparr>walk_instructions = [], iter_state = states, state = s, memory_state = ms,
                 rand_draws = draws\<rparr> = (e, t1, w1)"
    and out: "out = walk_instructions w1"
    using InstrumentBasicBlock_loop_form [OF False assms] by blast
  show ?thesis
    using loop_result [OF l] out by auto
qed

lemma select_plain:
  assumes "\<not> use_liveness_analysis t" "\<not> remove_redundant_checks t"
    "instrumentation_rate t = Finite 1"
  shows "InstrumentBasicBlock_select x sm instr t w =
           (w, InstrumentBasicBlock_access (core x) t sm instr)"
  using assms
  by (auto simp: InstrumentBasicBlock_select_def Let_def split: option.splits)

lemma example_lea_access:
  "InstrumentBasicBlock_access example_core t sm example_lea = None"
  by (simp add: InstrumentBasicBlock_access_def Let_def example_lea_def
      split: option.splits)

lemma example_fs_load_access:
  "InstrumentBasicBlock_access example_core t sm example_fs_load = None"
  by (simp add: InstrumentBasicBlock_access_def Let_def example_fs_load_def example_load_def
      SEGMENT_GET_def R_FS_def R_NONE_def split: option.splits)

lemma word32_minus_5: "(18446744073709551611::32 word) = - 5"
  by code_simp

lemma example_store_decode:
  "DecodeMemoryAccess example_core example_store InstrumentBasicBlock_info =
     Some (Operand_base_displ kRegisterEbp (DisplacementValue (- 5)),
           \<lparr>info_mode = kWriteAccess, info_size = 4, info_opcode = I_UNDEFINED,
            info_save_flags = True\<rparr>)"
  by (simp add: DecodeMemoryAccess_def DecodeMemoryAccess_mem_op_id_def
      DecodeMemoryAccess_mode_def DecodeMemoryAccess_operand_def
      ComputeDisplacementForOperand_def IsInstrumentable_def example_store_def
      example_core_def operands_def operand_none_def InstrumentBasicBlock_info_def
      FLAG_GET_PREFIX_def FLAG_REPNZ_def FLAG_REP_def FLAG_DST_WR_def Let_def
      word32_minus_5)

lemma example_store_access:
  "InstrumentBasicBlock_access example_core t kSafeStackAccess example_store = None"
  by (simp only: InstrumentBasicBlock_access_def example_store_decode Let_def option.case
      prod.case)
    (simp add: Operand_base_displ_def)

lemma example_load_access_safe:
  "InstrumentBasicBlock_access example_core example_plain kSafeStackAccess example_load =
     Some (Operand_base_displ kRegisterEbx (DisplacementValue 7),
           \<lparr>info_mode = kReadAccess, info_size = 4, info_opcode = I_UNDEFINED,
            info_save_flags = True\<rparr>)"
  by (simp only: InstrumentBasicBlock_access_def example_load_decode Let_def option.case
      prod.case)
    (simp add: Operand_base_displ_def example_load_def SEGMENT_GET_def R_NONE_def R_FS_def
      R_GS_def example_transform_def example_plain_def)

lemma example_plain_simps:
  "\<not> use_liveness_analysis example_plain" "\<not> remove_redundant_checks example_plain"
  "instrumentation_rate example_plain = Finite 1" "\<not> dry_run example_plain"
  "\<not> debug_friendly example_plain"
  "\<not> use_liveness_analysis (example_plain\<lparr>instrumentation_happened := True\<rparr>)"
  "\<not> remove_redundant_checks (example_plain\<lparr>instrumentation_happened := True\<rparr>)"
  "instrumentation_rate (example_plain\<lparr>instrumentation_happened := True\<rparr>) = Finite 1"
  by (simp_all add: example_plain_def example_transform_def)

lemma example_block:
  "InstrumentBasicBlock example_ext example_plain 0
     [example_lea, example_store, example_fs_load, example_load] kSafeStackAccess PE_IMAGE 0 =
     (None, example_plain\<lparr>instrumentation_happened := True\<rparr>,
      [Decoded example_lea, Decoded example_store, Decoded example_fs_load,
       Inserted (Asm_push kRegisterEdx) None,
       Inserted (Asm_lea kRegisterEdx
                   (Operand_base_displ kRegisterEbx (DisplacementValue 7))) None,
       Inserted (Asm_call_operand (Operand_displ (DisplacementBlock 100 0))) None,
       Decoded example_load], 0)"
  by (simp add: InstrumentBasicBlock_def example_plain_simps select_plain
      InstrumentBasicBlock_iteration_def example_ext_core example_lea_access
      example_store_access example_fs_load_access example_load_access_safe
      InstrumentBasicBlock_emit_def InjectAsanHook_asm_before Let_def)
    (simp add: example_plain_def example_transform_def example_hooks_def example_ext_def
      InjectAsanHook_asm_before)

text \<open>
  With a safe stack, of \<^verbatim>\<open>LEA EAX, [ECX+EDX*4+0x10]\<close>, \<^verbatim>\<open>MOV [EBP-8], EAX\<close>,
  \<^verbatim>\<open>MOV EAX, FS:[EBX+4]\<close> and \<^verbatim>\<open>MOV EAX, [EBX+4]\<close> only the last is
  instrumented.
\<close>

theorem InstrumentBasicBlock_exclusions_witness:
  "InstrumentBasicBlock example_ext example_plain 0
     [example_lea, example_store, example_fs_load, example_load] kSafeStackAccess PE_IMAGE 0 =
     (None, example_plain\<lparr>instrumentation_happened := True\<rparr>,
      [Decoded example_lea, Decoded example_store, Decoded example_fs_load,
       Inserted (Asm_push kRegisterEdx) None,
       Inserted (Asm_lea kRegisterEdx
                   (Operand_base_displ kRegisterEbx (DisplacementValue 7))) None,
       Inserted (Asm_call_operand (Operand_displ (DisplacementBlock 100 0))) None,
       Decoded example_load], 0) \<and>
   excluded_access example_core kSafeStackAccess example_lea \<and>
   excluded_access example_core kSafeStackAccess example_store \<and>
   excluded_access example_core kSafeStackAccess example_fs_load \<and>
   \<not> excluded_access example_core kSafeStackAccess example_load"
proof -
  have 1: "excluded_access example_core kSafeStackAccess example_lea"
    by (simp add: excluded_access_def example_lea_def)
  have 2: "excluded_access example_core kSafeStackAccess example_store"
    by (simp add: excluded_access_def example_store_decode Operand_base_displ_def)
  have 3: "excluded_access example_core kSafeStackAccess example_fs_load"
    by (simp add: excluded_access_def example_fs_load_def SEGMENT_GET_def R_FS_def R_NONE_def)
  have 4: "\<not> excluded_access example_core kSafeStackAccess example_load"
    using InstrumentBasicBlock_exclusions [OF example_block] by (simp add: example_ext_core)
  show ?thesis
    using example_block 1 2 3 4 by simp
qed

subsection \<open>Errors of a block\<close>

text \<open>
  Facts about the errors of a block: a dry run reports no error; the basic-block
  transform returns the error of the first basic block that fails and leaves the basic
  blocks after it as they were; the hot-patching transform returns success whatever
  the transforms it calls return; \<^verbatim>\<open>OnBlock\<close> returns the failure of the
  application of its transform, in both modes.
\<close>

lemma emit_dry_run:
  "dry_run t \<Longrightarrow>
   InstrumentBasicBlock_emit fmt instr operand info t w =
     (None, t\<lparr>instrumentation_happened := True\<rparr>, w)"
  by (simp add: InstrumentBasicBlock_emit_def Let_def)

lemma iteration_dry_run:
  assumes "dry_run t"
    and "InstrumentBasicBlock_iteration x sm fmt instr t w = (e, t1, w1)"
  shows "e = None \<and> dry_run t1"
  using assms
  by (auto simp: InstrumentBasicBlock_iteration_def emit_dry_run
      split: prod.splits option.splits)

lemma loop_dry_run:
  "dry_run t \<Longrightarrow> InstrumentBasicBlock_loop x sm fmt instrs t w = (e, t1, w1) \<Longrightarrow>
   e = None \<and> dry_run t1"
proof (induction instrs arbitrary: t w)
  case Nil
  then show ?case by simp
next
  case (Cons instr rest)
  obtain e0 t0 w0 where it: "InstrumentBasicBlock_iteration x sm fmt instr t w = (e0, t0, w0)"
    by (cases "InstrumentBasicBlock_iteration x sm fmt instr t w") auto
  have 0: "e0 = None" "dry_run t0"
    using iteration_dry_run [OF Cons.prems(1) it] by simp_all
  have "InstrumentBasicBlock_loop x sm fmt rest t0
          (w0\<lparr>walk_instructions := walk_instructions w0 @ [Decoded instr]\<rparr>) = (e, t1, w1)"
    using Cons.prems(2) it 0 by simp
  from Cons.IH [OF 0(2) this] show ?case .
qed

lemma InstrumentBasicBlock_dry_run:
  assumes "dry_run t"
    and "InstrumentBasicBlock x t bb instrs sm fmt draws = (e, t1, out, draws1)"
  shows "e = None \<and> dry_run t1"
proof (cases "double_eq (instrumentation_rate t) (Finite 0)")
  case True
  with assms show ?thesis
    by (simp add: InstrumentBasicBlock_def)
next
  case False
  obtain s states ms w1
    where l: "InstrumentBasicBlock_loop x sm fmt instrs t
                \<lparr>walk_instructions = [], iter_state = states, state = s, memory_state = ms,
                 rand_draws = draws\<rparr> = (e, t1, w1)"
    using InstrumentBasicBlock_loop_form [OF False assms(2)] by blast
  from loop_dry_run [OF assms(1) l] show ?thesis .
qed

lemma TransformBasicBlockSubGraph_loop_dry_run:
  "dry_run t \<Longrightarrow> TransformBasicBlockSubGraph_loop x sm fmt subgraph t draws = (e, t1, out, draws1)
   \<Longrightarrow> e = None \<and> dry_run t1"
proof (induction subgraph arbitrary: t draws e t1 out draws1)
  case Nil
  then show ?case by simp
next
  case (Cons b rest)
  show ?case
  proof (cases b)
    case (BasicOtherBlock n)
    obtain e0 t0 out0 d0
      where r: "TransformBasicBlockSubGraph_loop x sm fmt rest t draws = (e0, t0, out0, d0)"
      by (cases "TransformBasicBlockSubGraph_loop x sm fmt rest t draws") auto
    from Cons.IH [OF Cons.prems(1) r] Cons.prems(2) r BasicOtherBlock show ?thesis
      by simp
  next
    case (BasicCodeBlock n instrs)
    obtain e0 t0 out0 d0
      where i: "InstrumentBasicBlock x t n instrs sm fmt draws = (e0, t0, out0, d0)"
      by (cases "InstrumentBasicBlock x t n instrs sm fmt draws") auto
    have 0: "e0 = None" "dry_run t0"
      using InstrumentBasicBlock_dry_run [OF Cons.prems(1) i] by simp_all
    obtain e2 t2 out2 d2
      where r: "TransformBasicBlockSubGraph_loop x sm fmt rest t0 d0 = (e2, t2, out2, d2)"
      by (cases "TransformBasicBlockSubGraph_loop x sm fmt rest t0 d0") auto
    from Cons.IH [OF 0(2) r] Cons.prems(2) i 0 r BasicCodeBlock show ?thesis
      by simp
  qed
qed

lemma TransformBasicBlockSubGraph_dry_run:
  assumes "dry_run t"
  shows "fst (TransformBasicBlockSubGraph x t fmt subgraph draws) = None"
proof -
  let ?t1 = "if use_liveness_analysis t
             then t\<lparr>liveness := liveness_Analyze x subgraph (liveness t)\<rparr> else t"
  let ?t2 = "if remove_redundant_checks ?t1
             then ?t1\<lparr>memory_accesses := memory_Analyze x subgraph (memory_accesses ?t1)\<rparr>
             else ?t1"
  let ?sm = "if \<not> HasUnexpectedStackFrameManipulation x subgraph
             then kSafeStackAccess else kUnsafeStackAccess"
  have d: "dry_run ?t2"
    using assms by simp
  obtain e t1 out d1
    where r: "TransformBasicBlockSubGraph_loop x ?sm fmt subgraph ?t2 draws = (e, t1, out, d1)"
    by (cases "TransformBasicBlockSubGraph_loop x ?sm fmt subgraph ?t2 draws") auto
  have "e = None"
    using TransformBasicBlockSubGraph_loop_dry_run [OF d r] by simp
  with r show ?thesis
    by (simp add: TransformBasicBlockSubGraph_def Let_def)
qed

lemma TransformBasicBlockSubGraph_loop_fails:
  "TransformBasicBlockSubGraph_loop x sm fmt pre t d = (None, t1, pre', d1) \<Longrightarrow>
   InstrumentBasicBlock x t1 bb instrs sm fmt d1 = (Some e, t2, out, d2) \<Longrightarrow>
   TransformBasicBlockSubGraph_loop x sm fmt (pre @ BasicCodeBlock bb instrs # post) t d =
     (Some e, t2, pre' @ BasicCodeBlock bb out # map untouched post, d2)"
proof (induction pre arbitrary: t d pre')
  case Nil
  then show ?case by simp
next
  case (Cons b rest)
  show ?case
  proof (cases b)
    case (BasicOtherBlock n)
    obtain e0 t0 out0 d0
      where r: "TransformBasicBlockSubGraph_loop x sm fmt rest t d = (e0, t0, out0, d0)"
      by (cases "TransformBasicBlockSubGraph_loop x sm fmt rest t d") auto
    with Cons.prems(1) BasicOtherBlock
    have 0: "e0 = None" "t0 = t1" "pre' = BasicOtherBlock n # out0" "d0 = d1"
      by simp_all
    have "TransformBasicBlockSubGraph_loop x sm fmt
            (rest @ BasicCodeBlock bb instrs # post) t d =
          (Some e, t2, out0 @ BasicCodeBlock bb out # map untouched post, d2)"
      using Cons.IH [of t d out0] r 0 Cons.prems(2) by simp
    with BasicOtherBlock 0 show ?thesis
      by simp
  next
    case (BasicCodeBlock n ins)
    obtain e0 t0 out0 d0
      where i: "InstrumentBasicBlock x t n ins sm fmt d = (e0, t0, out0, d0)"
      by (cases "InstrumentBasicBlock x t n ins sm fmt d") auto
    have e0: "e0 = None"
      using Cons.prems(1) i BasicCodeBlock by (cases e0) auto
    obtain e3 t3 out3 d3
      where r: "TransformBasicBlockSubGraph_loop x sm fmt rest t0 d0 = (e3, t3, out3, d3)"
      by (cases "TransformBasicBlockSubGraph_loop x sm fmt rest t0 d0") auto
    with Cons.prems(1) i e0 BasicCodeBlock
    have 0: "e3 = None" "t3 = t1" "pre' = BasicCodeBlock n out0 # out3" "d3 = d1"
      by simp_all
    have "TransformBasicBlockSubGraph_loop x sm fmt
            (rest @ BasicCodeBlock bb instrs # post) t0 d0 =
          (Some e, t2, out3 @ BasicCodeBlock bb out # map untouched post, d2)"
      using Cons.IH [of t0 d0 out3] r 0 Cons.prems(2) by simp
    with i e0 0 BasicCodeBlock show ?thesis
      by simp
  qed
qed

lemma OnBlock_fails:
  assumes "\<not> ShouldSkipBlock px t bg block" "\<not> hot_patching t"
    and "apply_asan (AsanBasicBlockTransform_run x (bg_image_format bg))
           (OnBlock_transform x t, draws) bg block = (Some e, s, bg_out, new_blocks)"
  shows "OnBlock x px apply_asan apply_hp t bg block draws = (Some e, t, bg_out, snd s)"
  using assms by (simp add: OnBlock_def Let_def)

lemma OnBlock_hot_patching_fails:
  assumes "\<not> ShouldSkipBlock px t bg block" "hot_patching t"
    and "apply_hp (HotPatchingAsanBasicBlockTransform_run x px (bg_image_format bg))
           (\<lparr>asan_bb_transform = (OnBlock_transform x t)\<lparr>dry_run := True\<rparr>,
             prepared_for_hot_patching = False\<rparr>, draws) bg block =
         (Some e, s, bg_out, new_blocks)"
  shows "OnBlock x px apply_asan apply_hp t bg block draws = (Some e, t, bg_out, snd s)"
  using assms by (simp add: OnBlock_def Let_def)

lemma HotPatching_TransformBasicBlockSubGraph_success:
  "fst (HotPatching_TransformBasicBlockSubGraph x hp_bb_transform hp fmt subgraph draws) = None"
  by (simp add: HotPatching_TransformBasicBlockSubGraph_def Let_def split: prod.splits)

end
